theory Spec2Isabelle
  imports Main "HOL-Library.Finite_Map" "HOL-Library.Multiset"
begin

section \<open>Data model of the consensus package\<close>

text \<open>
  Byte slices and fixed-width byte arrays (\<open>[]byte\<close>, \<open>Hash\<close>, \<open>Addr\<close>, \<open>Rand\<close>, the
  serialized BLS keys and signatures) are byte strings; a \<open>char\<close> is one byte.
\<close>

type_synonym bytes = string
type_synonym Hash = bytes
type_synonym Addr = bytes
type_synonym Rand = bytes
type_synonym PK = bytes
type_synonym Sign = bytes

record Group =
  Members :: "Addr list"
  PK :: PK

record Config =
  BlockTime :: int
  GroupSize :: int
  GroupThreshold :: int

text \<open>
  Both signature structs of the source have a field \<open>Round\<close> and a field \<open>Sig\<close>; the
  fields of the share carry the prefix \<open>Share\<close>, the round of the signature is \<open>SigRound\<close>,
  and \<open>Round\<close> is kept for the method \<open>RandomBeacon.Round()\<close>.
\<close>

record RandBeaconSigShare =
  Owner :: Addr
  ShareRound :: int
  LastSigHash :: Hash
  ShareSig :: bytes

record RandBeaconSig =
  SigRound :: int
  LastRandVal :: Hash
  Sig :: bytes

text \<open>
  The declarations of the package that live outside the files at hand (\<open>hash\<close>, the
  methods of \<open>Rand\<close>, \<open>RandBeaconSigShare.Hash\<close>, \<open>recoverRandBeaconSig\<close>,
  \<open>RandBeaconSig.Encode\<close>, the BLS \<open>Verify\<close> and \<open>Serialize\<close>, and the zero value of
  the array type \<open>Hash\<close>) are parameters of the model, collected in one record.
\<close>

record ext =
  hash :: "bytes \<Rightarrow> Hash"
  HashZero :: Hash
  Derive :: "Rand \<Rightarrow> bytes \<Rightarrow> Rand"
  Mod :: "Rand \<Rightarrow> int \<Rightarrow> int"
  Perm :: "Rand \<Rightarrow> int \<Rightarrow> int \<Rightarrow> int list"
  shareHash :: "RandBeaconSigShare \<Rightarrow> Hash"
  recoverRandBeaconSig :: "(Hash, RandBeaconSigShare) fmap \<Rightarrow> Sign"
  Encode :: "RandBeaconSig \<Rightarrow> bool \<Rightarrow> bytes"
  Verify :: "Sign \<Rightarrow> PK \<Rightarrow> bytes \<Rightarrow> bool"
  Serialize :: "Sign \<Rightarrow> bytes"

record RandomBeacon =
  cfg :: Config
  nextRBCmteHistory :: "int list"
  nextNtCmteHistory :: "int list"
  nextBPCmteHistory :: "int list"
  groups :: "Group list"
  rbRand :: Rand
  ntRand :: Rand
  bpRand :: Rand
  curRoundShares :: "(Hash, RandBeaconSigShare) fmap"
  sigHistory :: "RandBeaconSig list"

text \<open>
  A Go call either returns or panics. The beacon is mutated in place, so every mutating
  method is modelled as a function returning the outcome together with the beacon as the
  call leaves it (also when it panics).
\<close>

datatype error =
  UnexpectedShareRound int int
  | UnexpectedLastSigHash Hash Hash
  | UnexpectedSigRound int int
  | AddrNotInCommittee
  | ConnectFailed

datatype panic =
  IndexOutOfRange int
  | VerificationFailed
  | NotImplemented

datatype 'a outcome = Panic panic | Return 'a

section \<open>random\_beacon.go\<close>

definition NewRandomBeacon :: "ext \<Rightarrow> Rand \<Rightarrow> Group list \<Rightarrow> Config \<Rightarrow> RandomBeacon" where
  "NewRandomBeacon X seed gs c =
     (let rbRand0 = Derive X seed ''random beacon committee rand seed'';
          bpRand0 = Derive X seed ''block proposer committee rand seed'';
          ntRand0 = Derive X seed ''notarization committee rand seed''
      in \<lparr> cfg = c,
           nextRBCmteHistory = [Mod X rbRand0 (int (length gs))],
           nextNtCmteHistory = [Mod X ntRand0 (int (length gs))],
           nextBPCmteHistory = [Mod X bpRand0 (int (length gs))],
           groups = gs,
           rbRand = rbRand0,
           ntRand = ntRand0,
           bpRand = bpRand0,
           curRoundShares = fmempty,
           sigHistory = [\<lparr> SigRound = 0, LastRandVal = HashZero X,
                           Sig = ''DEX random beacon 0th signature'' \<rparr>] \<rparr>)"

definition GetShare :: "RandomBeacon \<Rightarrow> Hash \<Rightarrow> RandBeaconSigShare option" where
  "GetShare r h = fmlookup (curRoundShares r) h"

definition round_rb :: "RandomBeacon \<Rightarrow> int" where
  "round_rb r = int (length (sigHistory r))"

definition Round :: "RandomBeacon \<Rightarrow> int" where
  "Round r = round_rb r"

definition History :: "RandomBeacon \<Rightarrow> RandBeaconSig list" where
  "History r = sigHistory r"

text \<open>Slice indexing with a Go \<open>int\<close>: a panic outside \<open>0 \<le> i < len(xs)\<close>.\<close>

definition index :: "'a list \<Rightarrow> int \<Rightarrow> 'a outcome" where
  "index xs i = (if 0 \<le> i \<and> i < int (length xs) then Return (xs ! nat i)
                 else Panic (IndexOutOfRange i))"

definition RecvRandBeaconSigShare ::
  "ext \<Rightarrow> RandomBeacon \<Rightarrow> RandBeaconSigShare \<Rightarrow> int
     \<Rightarrow> (RandBeaconSig option \<times> error option) outcome \<times> RandomBeacon" where
  "RecvRandBeaconSigShare X r s groupID =
     (if round_rb r \<noteq> ShareRound s then
        (Return (None, Some (UnexpectedShareRound (ShareRound s) (round_rb r))), r)
      else case index (sigHistory r) (ShareRound s - 1) of
        Panic p \<Rightarrow> (Panic p, r)
      | Return prev \<Rightarrow>
          let h = hash X (Sig prev) in
          if h \<noteq> LastSigHash s then
            (Return (None, Some (UnexpectedLastSigHash (LastSigHash s) h)), r)
          else
            let r1 = r\<lparr> curRoundShares := fmupd (shareHash X s) s (curRoundShares r) \<rparr> in
            if int (fcard (fmdom (curRoundShares r1))) \<ge> GroupThreshold (cfg r1) then
              let sig = recoverRandBeaconSig X (curRoundShares r1);
                  rbs = \<lparr> SigRound = ShareRound s, LastRandVal = LastSigHash s, Sig = [] \<rparr>;
                  msg = Encode X rbs False
              in case index (groups r1) groupID of
                   Panic p \<Rightarrow> (Panic p, r1)
                 | Return g \<Rightarrow>
                     if \<not> Verify X sig (PK g) msg then (Panic VerificationFailed, r1)
                     else (Return (Some (rbs\<lparr> Sig := Serialize X sig \<rparr>), None), r1)
            else (Return (None, None), r1))"

definition deriveRand :: "ext \<Rightarrow> RandomBeacon \<Rightarrow> Hash \<Rightarrow> RandomBeacon" where
  "deriveRand X r h =
     (let r1 = r\<lparr> rbRand := Derive X (rbRand r) h \<rparr>;
          r2 = r1\<lparr> nextRBCmteHistory :=
                     nextRBCmteHistory r1 @ [Mod X (rbRand r1) (int (length (groups r1)))] \<rparr>;
          r3 = r2\<lparr> ntRand := Derive X (ntRand r2) h \<rparr>;
          r4 = r3\<lparr> nextNtCmteHistory :=
                     nextNtCmteHistory r3 @ [Mod X (ntRand r3) (int (length (groups r3)))] \<rparr>;
          r5 = r4\<lparr> bpRand := Derive X (bpRand r4) h \<rparr>
      in r5\<lparr> nextBPCmteHistory :=
                 nextBPCmteHistory r5 @ [Mod X (bpRand r5) (int (length (groups r5)))] \<rparr>)"

definition RecvRandBeaconSig ::
  "ext \<Rightarrow> RandomBeacon \<Rightarrow> RandBeaconSig \<Rightarrow> error option \<times> RandomBeacon" where
  "RecvRandBeaconSig X r s =
     (if round_rb r \<noteq> SigRound s then
        (Some (UnexpectedSigRound (SigRound s) (round_rb r)), r)
      else
        let r1 = deriveRand X r (hash X (Sig s));
            r2 = r1\<lparr> curRoundShares := fmempty \<rparr>
        in (None, r2\<lparr> sigHistory := sigHistory r2 @ [s] \<rparr>))"

text \<open>
  \<open>GetShare\<close>, \<open>RecvRandBeaconSigShare\<close>, \<open>RecvRandBeaconSig\<close>, \<open>Round\<close>,
  \<open>Committees\<close> and \<open>History\<close> hold \<open>r.mu\<close> from their first statement to their
  return, so each runs on the beacon as one of the others left it. \<open>Rank\<close> does not
  take \<open>r.mu\<close>: a call in another goroutine can run while \<open>RecvRandBeaconSig\<close> is
  between two of its statements. The beacon as it stands after each statement of
  \<open>deriveRand\<close> (lines 148 to 153), and after each statement of an accepted
  \<open>RecvRandBeaconSig\<close> (the six of \<open>deriveRand\<close>, then lines 104 and 105), in order:
\<close>

definition deriveRandStates :: "ext \<Rightarrow> RandomBeacon \<Rightarrow> Hash \<Rightarrow> RandomBeacon list" where
  "deriveRandStates X r h =
     (let r1 = r\<lparr> rbRand := Derive X (rbRand r) h \<rparr>;
          r2 = r1\<lparr> nextRBCmteHistory :=
                     nextRBCmteHistory r1 @ [Mod X (rbRand r1) (int (length (groups r1)))] \<rparr>;
          r3 = r2\<lparr> ntRand := Derive X (ntRand r2) h \<rparr>;
          r4 = r3\<lparr> nextNtCmteHistory :=
                     nextNtCmteHistory r3 @ [Mod X (ntRand r3) (int (length (groups r3)))] \<rparr>;
          r5 = r4\<lparr> bpRand := Derive X (bpRand r4) h \<rparr>;
          r6 = r5\<lparr> nextBPCmteHistory :=
                     nextBPCmteHistory r5 @ [Mod X (bpRand r5) (int (length (groups r5)))] \<rparr>
      in [r1, r2, r3, r4, r5, r6])"

definition RecvRandBeaconSigStates ::
  "ext \<Rightarrow> RandomBeacon \<Rightarrow> RandBeaconSig \<Rightarrow> RandomBeacon list" where
  "RecvRandBeaconSigStates X r s =
     (if round_rb r \<noteq> SigRound s then []
      else
        let ds = deriveRandStates X r (hash X (Sig s));
            r1 = last ds;
            r2 = r1\<lparr> curRoundShares := fmempty \<rparr>;
            r3 = r2\<lparr> sigHistory := sigHistory r2 @ [s] \<rparr>
        in ds @ [r2, r3])"

text \<open>
  The search loop of \<open>Rank\<close>: \<open>idx\<close> starts at \<open>-1\<close> and is set to the first position
  that holds \<open>addr\<close>; \<open>i\<close> is the loop counter.
\<close>

fun rankLoop :: "Addr \<Rightarrow> Addr list \<Rightarrow> int \<Rightarrow> int" where
  "rankLoop addr [] i = -1"
| "rankLoop addr (m # ms) i = (if addr = m then i else rankLoop addr ms (i + 1))"

definition Rank :: "ext \<Rightarrow> RandomBeacon \<Rightarrow> Addr \<Rightarrow> (int \<times> error option) outcome" where
  "Rank X r addr =
     (case index (nextBPCmteHistory r) (int (length (nextBPCmteHistory r)) - 1) of
        Panic p \<Rightarrow> Panic p
      | Return bp \<Rightarrow>
          (case index (groups r) bp of
             Panic p \<Rightarrow> Panic p
           | Return g \<Rightarrow>
               let idx = rankLoop addr (Members g) 0 in
               if idx < 0 then Return (0, Some AddrNotInCommittee)
               else
                 let perm = Perm X (bpRand r) (idx + 1) (int (length (Members g))) in
                 (case index perm idx of
                    Panic p \<Rightarrow> Panic p
                  | Return k \<Rightarrow> Return (k, None))))"

definition Committees :: "RandomBeacon \<Rightarrow> (int \<times> int \<times> int) outcome" where
  "Committees r =
     (case index (nextRBCmteHistory r) (int (length (nextRBCmteHistory r)) - 1) of
        Panic p \<Rightarrow> Panic p
      | Return rb \<Rightarrow>
          (case index (nextBPCmteHistory r) (int (length (nextBPCmteHistory r)) - 1) of
             Panic p \<Rightarrow> Panic p
           | Return bp \<Rightarrow>
               (case index (nextNtCmteHistory r) (int (length (nextNtCmteHistory r)) - 1) of
                  Panic p \<Rightarrow> Panic p
                | Return nt \<Rightarrow> Return (rb, bp, nt))))"


text \<open>
  The methods that change the beacon, as the operations of a run. A run applies them in
  order, each on the beacon the previous one left; a panic ends the process, so the run
  has no final beacon (\<open>None\<close>). A call that returns an error is part of the run: it
  returns with the beacon as it found it.
\<close>

datatype beaconOp = OpShare RandBeaconSigShare int | OpSig RandBeaconSig

fun run :: "ext \<Rightarrow> RandomBeacon \<Rightarrow> beaconOp list \<Rightarrow> RandomBeacon option" where
  "run X r [] = Some r"
| "run X r (OpShare s g # ops) =
     (case RecvRandBeaconSigShare X r s g of
        (Panic p, r') \<Rightarrow> None
      | (Return v, r') \<Rightarrow> run X r' ops)"
| "run X r (OpSig s # ops) = run X (snd (RecvRandBeaconSig X r s)) ops"

text \<open>The number of signatures that \<open>RecvRandBeaconSig\<close> accepts (returns \<open>nil\<close> for) in a run.\<close>

fun acceptedSigs :: "ext \<Rightarrow> RandomBeacon \<Rightarrow> beaconOp list \<Rightarrow> nat" where
  "acceptedSigs X r [] = 0"
| "acceptedSigs X r (OpShare s g # ops) =
     acceptedSigs X (snd (RecvRandBeaconSigShare X r s g)) ops"
| "acceptedSigs X r (OpSig s # ops) =
     (case RecvRandBeaconSig X r s of
        (None, r') \<Rightarrow> Suc (acceptedSigs X r' ops)
      | (Some e, r') \<Rightarrow> acceptedSigs X r' ops)"

section \<open>networking.go\<close>

datatype ItemType =
  TxnItem | SysTxnItem | BlockItem | BlockProposalItem | NtShareItem
  | RandBeaconShareItem | RandBeaconItem

record ItemID =
  T :: ItemType
  ItemRound :: int
  Ref :: Hash
  Hash :: Hash

text \<open>
  Blocks, block proposals and notarization shares are opaque here. A \<open>Peer\<close> is a remote
  node, named by the address it was connected under; a method call on a peer is an effect,
  recorded as a \<open>call\<close> in the order the calls are made.
\<close>

type_synonym Block = bytes
type_synonym BlockProposal = bytes
type_synonym NtShare = bytes
type_synonym Peer = string

datatype call =
  CallGetData Peer string "ItemID list"
  | CallBlock Peer Block
  | CallBlockProposal Peer BlockProposal
  | CallNotarizationShare Peer NtShare
  | CallRandBeaconSigShare Peer RandBeaconSigShare
  | CallRandBeaconSig Peer RandBeaconSig

text \<open>
  The chain is declared outside the files at hand. Its queries used by the networking
  component are the fields of this record: \<open>Round()\<close>, the lookups \<open>Block\<close>,
  \<open>BlockProposal\<close>, \<open>NtShare\<close> (a value and \<open>ok\<close>, here an option), \<open>NeedNotarize\<close>, and
  the beacon it owns.
\<close>

record Chain =
  ChainRound :: int
  Block :: "Hash \<rightharpoonup> Block"
  BlockProposal :: "Hash \<rightharpoonup> BlockProposal"
  NtShare :: "Hash \<rightharpoonup> NtShare"
  NeedNotarize :: "Hash \<Rightarrow> bool"
  RandomBeacon :: RandomBeacon

text \<open>\<open>Connect\<close> is the method of the \<open>Network\<close> interface held in the field \<open>net\<close>.\<close>

record Networking =
  Connect :: "string \<Rightarrow> error + Peer"
  addr :: string
  chain :: Chain
  peers :: "string \<rightharpoonup> Peer"
  peerAddrs :: "string \<rightharpoonup> bool"

definition findOrConnect :: "Networking \<Rightarrow> string \<Rightarrow> (error + Peer) \<times> Networking" where
  "findOrConnect n a =
     (case peers n a of
        Some p \<Rightarrow> (Inr p, n)
      | None \<Rightarrow>
          (case Connect n a of
             Inl e \<Rightarrow> (Inl e, n)
           | Inr p \<Rightarrow> (Inr p, n\<lparr> peers := (peers n)(a \<mapsto> p) \<rparr>)))"

definition emit :: "call \<Rightarrow> call list \<times> unit outcome \<Rightarrow> call list \<times> unit outcome" where
  "emit c rest = (c # fst rest, snd rest)"

text \<open>
  The loop of \<open>recvInventory\<close> over the announced items: the calls made, in order, and
  whether the loop returned or panicked (the calls made before a panic were made).
\<close>

fun inventoryLoop ::
  "Networking \<Rightarrow> Peer \<Rightarrow> int \<Rightarrow> ItemID list \<Rightarrow> call list \<times> unit outcome" where
  "inventoryLoop n p rnd [] = ([], Return ())"
| "inventoryLoop n p rnd (x # xs) =
     (case T x of
        TxnItem \<Rightarrow> ([], Panic NotImplemented)
      | SysTxnItem \<Rightarrow> ([], Panic NotImplemented)
      | BlockItem \<Rightarrow>
          (case Block (chain n) (Hash x) of
             None \<Rightarrow> emit (CallGetData p (addr n) [x]) (inventoryLoop n p rnd xs)
           | Some b \<Rightarrow> inventoryLoop n p rnd xs)
      | BlockProposalItem \<Rightarrow>
          if ItemRound x \<noteq> rnd then inventoryLoop n p rnd xs
          else (case BlockProposal (chain n) (Hash x) of
                  Some bp \<Rightarrow> inventoryLoop n p rnd xs
                | None \<Rightarrow> emit (CallGetData p (addr n) [x]) (inventoryLoop n p rnd xs))
      | NtShareItem \<Rightarrow>
          if ItemRound x \<noteq> rnd then inventoryLoop n p rnd xs
          else (case NtShare (chain n) (Hash x) of
                  Some nts \<Rightarrow> inventoryLoop n p rnd xs
                | None \<Rightarrow>
                    if \<not> NeedNotarize (chain n) (Ref x) then inventoryLoop n p rnd xs
                    else emit (CallGetData p (addr n) [x]) (inventoryLoop n p rnd xs))
      | RandBeaconShareItem \<Rightarrow>
          if ItemRound x \<noteq> rnd then inventoryLoop n p rnd xs
          else (case GetShare (RandomBeacon (chain n)) (Hash x) of
                  Some share \<Rightarrow> inventoryLoop n p rnd xs
                | None \<Rightarrow> emit (CallGetData p (addr n) [x]) (inventoryLoop n p rnd xs))
      | RandBeaconItem \<Rightarrow>
          if ItemRound x \<noteq> rnd then inventoryLoop n p rnd xs
          else emit (CallGetData p (addr n) [x]) (inventoryLoop n p rnd xs))"


fun serveLoop :: "Networking \<Rightarrow> Peer \<Rightarrow> ItemID list \<Rightarrow> call list \<times> unit outcome" where
  "serveLoop n p [] = ([], Return ())"
| "serveLoop n p (x # xs) =
     (case T x of
        TxnItem \<Rightarrow> ([], Panic NotImplemented)
      | SysTxnItem \<Rightarrow> ([], Panic NotImplemented)
      | BlockItem \<Rightarrow>
          (case Block (chain n) (Hash x) of
             None \<Rightarrow> serveLoop n p xs
           | Some b \<Rightarrow> emit (CallBlock p b) (serveLoop n p xs))
      | BlockProposalItem \<Rightarrow>
          (case BlockProposal (chain n) (Hash x) of
             None \<Rightarrow> serveLoop n p xs
           | Some bp \<Rightarrow> emit (CallBlockProposal p bp) (serveLoop n p xs))
      | NtShareItem \<Rightarrow>
          (case NtShare (chain n) (Hash x) of
             None \<Rightarrow> serveLoop n p xs
           | Some nts \<Rightarrow> emit (CallNotarizationShare p nts) (serveLoop n p xs))
      | RandBeaconShareItem \<Rightarrow>
          (case GetShare (RandomBeacon (chain n)) (Hash x) of
             None \<Rightarrow> serveLoop n p xs
           | Some share \<Rightarrow> emit (CallRandBeaconSigShare p share) (serveLoop n p xs))
      | RandBeaconItem \<Rightarrow>
          let history = History (RandomBeacon (chain n)) in
          if ItemRound x \<ge> int (length history) then serveLoop n p xs
          else (case index history (ItemRound x) of
                  Panic pn \<Rightarrow> ([], Panic pn)
                | Return sg \<Rightarrow> emit (CallRandBeaconSig p sg) (serveLoop n p xs)))"

definition serveData ::
  "Networking \<Rightarrow> string \<Rightarrow> ItemID list \<Rightarrow> call list \<times> unit outcome \<times> Networking" where
  "serveData n requester ids =
     (case findOrConnect n requester of
        (Inl e, n') \<Rightarrow> ([], Return (), n')
      | (Inr p, n') \<Rightarrow>
          let res = serveLoop n' p ids
          in (fst res, snd res, n'))"


section \<open>Contracts of the external declarations\<close>

text \<open>
  Modelled from the spec: the methods \<open>Mod\<close> and \<open>Perm\<close> of \<open>Rand\<close> are not in the
  files at hand. The specification gives \<open>Mod(n)\<close> the contract \<open>0 \<le> result < n\<close>.
\<close>

definition Mod_in_range :: "ext \<Rightarrow> bool" where
  "Mod_in_range X \<longleftrightarrow> (\<forall>r n. 0 < n \<longrightarrow> 0 \<le> Mod X r n \<and> Mod X r n < n)"

text \<open>
  Modelled from the spec: \<open>Perm(k, n)\<close> returns a permutation of \<open>0..n-1\<close> whose first
  \<open>k\<close> positions are the \<open>k\<close>-element prefix of the shuffle driven by the stream. The
  shuffle of a stream over \<open>n\<close> elements is \<open>Perm(n, n)\<close>, all of whose positions are
  those of the shuffle.
\<close>

definition Perm_prefix_of_shuffle :: "ext \<Rightarrow> bool" where
  "Perm_prefix_of_shuffle X \<longleftrightarrow>
     (\<forall>r k n. 0 \<le> k \<and> k \<le> n \<longrightarrow>
        mset (Perm X r k n) = mset (map int [0..<nat n]) \<and>
        take (nat k) (Perm X r k n) = take (nat k) (Perm X r n n))"

section \<open>The committee histories as functions of the signature history\<close>

text \<open>
  The states a stream goes through: the stream derived from the seed, then one
  \<open>Derive(hash(Sig))\<close> for each signature after the genesis entry.
\<close>

fun streamHistory :: "ext \<Rightarrow> Rand \<Rightarrow> RandBeaconSig list \<Rightarrow> Rand list" where
  "streamHistory X r0 [] = [r0]"
| "streamHistory X r0 (s # ss) = r0 # streamHistory X (Derive X r0 (hash X (Sig s))) ss"

definition cmteHistoryOf ::
  "ext \<Rightarrow> Rand \<Rightarrow> bytes \<Rightarrow> nat \<Rightarrow> RandBeaconSig list \<Rightarrow> int list" where
  "cmteHistoryOf X seed label ngroups sigs =
     map (\<lambda>rnd. Mod X rnd (int ngroups)) (streamHistory X (Derive X seed label) (tl sigs))"

definition streamOf :: "ext \<Rightarrow> Rand \<Rightarrow> bytes \<Rightarrow> RandBeaconSig list \<Rightarrow> Rand" where
  "streamOf X seed label sigs = last (streamHistory X (Derive X seed label) (tl sigs))"

text \<open>
  The two checks of \<open>RecvRandBeaconSigShare\<close> on a share, as the specification words
  them: the share is of the current round and is bound to the previous signature.
\<close>

definition shareChecksPass :: "ext \<Rightarrow> RandomBeacon \<Rightarrow> RandBeaconSigShare \<Rightarrow> bool" where
  "shareChecksPass X r s \<longleftrightarrow>
     ShareRound s = Round r \<and>
     LastSigHash s = hash X (Sig (sigHistory r ! nat (ShareRound s - 1)))"

section \<open>An executable instance\<close>

text \<open>
  A small instance of the external declarations, on which the model runs on concrete
  inputs: two residues of the input read as a number for \<open>hash\<close>, \<open>Derive\<close> as the hash of state and input,
  \<open>Mod\<close> as the reduction of the state read as a big-endian number, \<open>Perm\<close> as the first
  \<open>k\<close> steps of a Fisher-Yates shuffle that draws from the stream.
\<close>

definition bytesToNat :: "bytes \<Rightarrow> nat" where
  "bytesToNat bs = foldl (\<lambda>a c. a * 256 + of_char c) 0 bs"

definition demoHash :: "bytes \<Rightarrow> Hash" where
  "demoHash bs = [char_of (bytesToNat bs mod 251), char_of (bytesToNat bs mod 241)]"

definition demoDerive :: "Rand \<Rightarrow> bytes \<Rightarrow> Rand" where
  "demoDerive r bs = demoHash (r @ bs)"

definition demoMod :: "Rand \<Rightarrow> int \<Rightarrow> int" where
  "demoMod r n = int (bytesToNat r) mod n"

definition demoNext :: "Rand \<Rightarrow> Rand" where
  "demoNext st = demoDerive st ''next''"

fun fyLoop :: "Rand \<Rightarrow> nat \<Rightarrow> nat \<Rightarrow> int list \<Rightarrow> int list" where
  "fyLoop st i 0 xs = xs"
| "fyLoop st i (Suc k) xs =
     (let j = i + nat (demoMod st (int (length xs - i)))
      in fyLoop (demoNext st) (Suc i) k (xs[i := xs ! j, j := xs ! i]))"

definition demoPerm :: "Rand \<Rightarrow> int \<Rightarrow> int \<Rightarrow> int list" where
  "demoPerm r k n = fyLoop r 0 (nat k) (map int [0..<nat n])"

definition demoShareHash :: "RandBeaconSigShare \<Rightarrow> Hash" where
  "demoShareHash s = demoHash (Owner s @ LastSigHash s @ ShareSig s)"

definition demoExt :: ext where
  "demoExt = \<lparr> hash = demoHash,
               HashZero = replicate 32 (CHR 0x00),
               Derive = demoDerive,
               Mod = demoMod,
               Perm = demoPerm,
               shareHash = demoShareHash,
               recoverRandBeaconSig = (\<lambda>m. ''group signature''),
               Encode = (\<lambda>s withSig. LastRandVal s @ (if withSig then Sig s else [])),
               Verify = (\<lambda>sg pk msg. sg = ''group signature''),
               Serialize = (\<lambda>sg. sg) \<rparr>"

definition demoGroups :: "Group list" where
  "demoGroups = [\<lparr> Members = [''A'', ''B'', ''C''], PK = ''pk0'' \<rparr>,
                 \<lparr> Members = [''D'', ''E'', ''F''], PK = ''pk1'' \<rparr>]"

definition demoCfg :: Config where
  "demoCfg = \<lparr> BlockTime = 1000000000, GroupSize = 3, GroupThreshold = 2 \<rparr>"

definition demoBeacon :: RandomBeacon where
  "demoBeacon = NewRandomBeacon demoExt ''seed'' demoGroups demoCfg"

definition demoSig :: RandBeaconSig where
  "demoSig = \<lparr> SigRound = 1, LastRandVal = demoHash ''DEX random beacon 0th signature'',
               Sig = ''group signature'' \<rparr>"

definition demoShare :: "Addr \<Rightarrow> RandBeaconSigShare" where
  "demoShare a = \<lparr> Owner = a, ShareRound = 1,
                   LastSigHash = demoHash ''DEX random beacon 0th signature'',
                   ShareSig = ''share of '' @ a \<rparr>"

definition demoBeacon1 :: RandomBeacon where
  "demoBeacon1 = snd (RecvRandBeaconSigShare demoExt demoBeacon (demoShare ''A'') 0)"

definition demoBeacon2 :: RandomBeacon where
  "demoBeacon2 = snd (RecvRandBeaconSigShare demoExt demoBeacon1 (demoShare ''B'') 0)"


definition staleShare :: RandBeaconSigShare where
  "staleShare = \<lparr> Owner = ''A'', ShareRound = 0,
                   LastSigHash = demoHash ''DEX random beacon 0th signature'',
                   ShareSig = ''share of A'' \<rparr>"

definition unboundShare :: RandBeaconSigShare where
  "unboundShare = \<lparr> Owner = ''A'', ShareRound = 1, LastSigHash = ''arbitrary'',
                   ShareSig = ''share of A'' \<rparr>"

definition demoBeacon3 :: RandomBeacon where
  "demoBeacon3 = snd (RecvRandBeaconSig demoExt demoBeacon2 demoSig)"

definition demoOps :: "beaconOp list" where
  "demoOps = [OpShare (demoShare ''A'') 0, OpShare (demoShare ''B'') 0, OpSig demoSig]"

definition demoSigOther :: RandBeaconSig where
  "demoSigOther = \<lparr> SigRound = 1, LastRandVal = demoHash ''DEX random beacon 0th signature'',
                    Sig = ''other signature'' \<rparr>"

text \<open>
  The beacon holding the shares of A and B, while \<open>RecvRandBeaconSig\<close> is between
  lines 152 and 153 of \<open>deriveRand\<close>.
\<close>

definition demoMid :: RandomBeacon where
  "demoMid = deriveRandStates demoExt demoBeacon2 (hash demoExt (Sig demoSigOther)) ! 4"

section \<open>The invariant of the beacon\<close>

text \<open>
  What holds of a beacon built by \<open>NewRandomBeacon\<close> from a seed and a group list, and
  of every beacon a run leads to from there: the group list is the one given, the
  signature history starts with the genesis entry, and each committee history and stream
  is the function above of the signature history.
\<close>

definition genesisSig :: "ext \<Rightarrow> RandBeaconSig" where
  "genesisSig X = \<lparr> SigRound = 0, LastRandVal = HashZero X,
                    Sig = ''DEX random beacon 0th signature'' \<rparr>"

definition beaconInv :: "ext \<Rightarrow> Rand \<Rightarrow> Group list \<Rightarrow> RandomBeacon \<Rightarrow> bool" where
  "beaconInv X seed gs r \<longleftrightarrow>
     groups r = gs \<and> sigHistory r \<noteq> [] \<and> hd (sigHistory r) = genesisSig X \<and>
     nextRBCmteHistory r
       = cmteHistoryOf X seed ''random beacon committee rand seed'' (length gs) (sigHistory r) \<and>
     nextBPCmteHistory r
       = cmteHistoryOf X seed ''block proposer committee rand seed'' (length gs) (sigHistory r) \<and>
     nextNtCmteHistory r
       = cmteHistoryOf X seed ''notarization committee rand seed'' (length gs) (sigHistory r) \<and>
     rbRand r = streamOf X seed ''random beacon committee rand seed'' (sigHistory r) \<and>
     bpRand r = streamOf X seed ''block proposer committee rand seed'' (sigHistory r) \<and>
     ntRand r = streamOf X seed ''notarization committee rand seed'' (sigHistory r)"

text \<open>
  The members of the current block-proposal committee: the group selected by the last
  entry of the block-proposer committee history, as \<open>Rank\<close> reads it.
\<close>

definition bpCommittee :: "RandomBeacon \<Rightarrow> Addr list" where
  "bpCommittee r = Members (groups r ! nat (last (nextBPCmteHistory r)))"

text \<open>A node at round 1 that knows one peer and holds one block and the share of A.\<close>

definition demoChain :: Chain where
  "demoChain = \<lparr> ChainRound = 1,
                 Block = [''block hash'' \<mapsto> ''block''],
                 BlockProposal = Map.empty,
                 NtShare = Map.empty,
                 NeedNotarize = (\<lambda>h. True),
                 RandomBeacon = demoBeacon1 \<rparr>"

definition demoNet :: Networking where
  "demoNet = \<lparr> Connect = (\<lambda>a. Inl ConnectFailed),
               addr = ''self'',
               chain = demoChain,
               peers = [''peer'' \<mapsto> ''peer''],
               peerAddrs = Map.empty \<rparr>"

definition demoItem :: "ItemType \<Rightarrow> int \<Rightarrow> Hash \<Rightarrow> ItemID" where
  "demoItem t rnd h = \<lparr> T = t, ItemRound = rnd, Ref = [], Hash = h \<rparr>"

section \<open>The inventory handler in the specification's words\<close>


definition isTxn :: "ItemID \<Rightarrow> bool" where
  "isTxn x \<longleftrightarrow> T x = TxnItem \<or> T x = SysTxnItem"

text \<open>What it is for the node to hold the item that a call sends to a peer.\<close>

definition holds :: "Networking \<Rightarrow> call \<Rightarrow> bool" where
  "holds n c =
     (case c of
        CallGetData p a xs \<Rightarrow> False
      | CallBlock p b \<Rightarrow> b \<in> ran (Block (chain n))
      | CallBlockProposal p bp \<Rightarrow> bp \<in> ran (BlockProposal (chain n))
      | CallNotarizationShare p nts \<Rightarrow> nts \<in> ran (NtShare (chain n))
      | CallRandBeaconSigShare p sh \<Rightarrow>
          (\<exists>h. GetShare (RandomBeacon (chain n)) h = Some sh)
      | CallRandBeaconSig p sg \<Rightarrow> sg \<in> set (History (RandomBeacon (chain n))))"

section \<open>Properties of the random beacon\<close>

lemma demoExt_simps:
  "hash demoExt = demoHash" "HashZero demoExt = replicate 32 (CHR 0x00)"
  "Derive demoExt = demoDerive" "Mod demoExt = demoMod" "Perm demoExt = demoPerm"
  "shareHash demoExt = demoShareHash"
  "recoverRandBeaconSig demoExt = (\<lambda>m. ''group signature'')"
  "Encode demoExt = (\<lambda>s withSig. LastRandVal s @ (if withSig then Sig s else []))"
  "Verify demoExt = (\<lambda>sg pk msg. sg = ''group signature'')"
  "Serialize demoExt = (\<lambda>sg. sg)"
  by (simp_all add: demoExt_def)

lemma demoMod_in_range: "Mod_in_range demoExt"
  by (simp add: Mod_in_range_def demoExt_simps demoMod_def)

lemma demoBeacon_Round: "Round demoBeacon = 1"
  by (simp add: demoBeacon_def NewRandomBeacon_def Round_def round_rb_def Let_def)

lemma demoBeacon_groups: "groups demoBeacon = demoGroups"
  by (simp add: demoBeacon_def NewRandomBeacon_def Let_def)

lemma demoBeacon_lengths:
  "length (nextRBCmteHistory demoBeacon) = 1" "length (nextNtCmteHistory demoBeacon) = 1"
  "length (nextBPCmteHistory demoBeacon) = 1"
  by (simp_all add: demoBeacon_def NewRandomBeacon_def Let_def)

lemma deriveRand_eq:
  "deriveRand X r h =
     r\<lparr> rbRand := Derive X (rbRand r) h,
        nextRBCmteHistory :=
          nextRBCmteHistory r @ [Mod X (Derive X (rbRand r) h) (int (length (groups r)))],
        ntRand := Derive X (ntRand r) h,
        nextNtCmteHistory :=
          nextNtCmteHistory r @ [Mod X (Derive X (ntRand r) h) (int (length (groups r)))],
        bpRand := Derive X (bpRand r) h,
        nextBPCmteHistory :=
          nextBPCmteHistory r @ [Mod X (Derive X (bpRand r) h) (int (length (groups r)))] \<rparr>"
  by (simp add: deriveRand_def)

text \<open>
  The effect of \<open>RecvRandBeaconSig\<close> on a signature of the current round, the call
  taken as one step from beacon to beacon: no error, each of the three streams replaced by
  its \<open>Derive(hash(s.Sig))\<close>, each committee history extended by the new stream's
  \<open>Mod(len(groups))\<close>, the share set empty and \<open>s\<close> appended to the signature history;
  \<open>Round()\<close> is one more than before, and each appended index is in
  \<open>[0, len(groups))\<close> by the contract of \<open>Mod\<close>.
\<close>

lemma RecvRandBeaconSig_effect:
  assumes "SigRound s = Round r" and "Mod_in_range X" and "groups r \<noteq> []"
  shows "\<exists>rb nt bp.
           RecvRandBeaconSig X r s =
             (None, r\<lparr> rbRand := Derive X (rbRand r) (hash X (Sig s)),
                        ntRand := Derive X (ntRand r) (hash X (Sig s)),
                        bpRand := Derive X (bpRand r) (hash X (Sig s)),
                        nextRBCmteHistory := nextRBCmteHistory r @ [rb],
                        nextNtCmteHistory := nextNtCmteHistory r @ [nt],
                        nextBPCmteHistory := nextBPCmteHistory r @ [bp],
                        curRoundShares := fmempty,
                        sigHistory := sigHistory r @ [s] \<rparr>)
         \<and> rb = Mod X (Derive X (rbRand r) (hash X (Sig s))) (int (length (groups r)))
         \<and> nt = Mod X (Derive X (ntRand r) (hash X (Sig s))) (int (length (groups r)))
         \<and> bp = Mod X (Derive X (bpRand r) (hash X (Sig s))) (int (length (groups r)))
         \<and> 0 \<le> rb \<and> rb < int (length (groups r))
         \<and> 0 \<le> nt \<and> nt < int (length (groups r))
         \<and> 0 \<le> bp \<and> bp < int (length (groups r))
         \<and> Round (snd (RecvRandBeaconSig X r s)) = Round r + 1"
  using assms
  by (simp add: RecvRandBeaconSig_def deriveRand_eq Round_def round_rb_def Mod_in_range_def)


lemma index_last: "xs \<noteq> [] \<Longrightarrow> index xs (int (length xs) - 1) = Return (last xs)"
  by (cases xs rule: rev_cases) (simp_all add: index_def nat_diff_distrib)

lemma RecvShare_wrong_round:
  "ShareRound s \<noteq> Round r \<Longrightarrow>
     RecvRandBeaconSigShare X r s g =
       (Return (None, Some (UnexpectedShareRound (ShareRound s) (Round r))), r)"
  by (auto simp add: RecvRandBeaconSigShare_def Round_def)

lemma RecvShare_wrong_hash:
  "sigHistory r \<noteq> [] \<Longrightarrow> ShareRound s = Round r \<Longrightarrow>
   LastSigHash s \<noteq> hash X (Sig (sigHistory r ! nat (ShareRound s - 1))) \<Longrightarrow>
     RecvRandBeaconSigShare X r s g =
       (Return (None, Some (UnexpectedLastSigHash (LastSigHash s)
                  (hash X (Sig (sigHistory r ! nat (ShareRound s - 1)))))), r)"
  by (auto simp add: RecvRandBeaconSigShare_def Round_def round_rb_def index_def Let_def)

lemma RecvShare_snd_cases:
  "snd (RecvRandBeaconSigShare X r s g) = r \<or>
   (shareChecksPass X r s \<and>
    snd (RecvRandBeaconSigShare X r s g)
      = r\<lparr> curRoundShares := fmupd (shareHash X s) s (curRoundShares r) \<rparr>)"
  by (auto simp add: RecvRandBeaconSigShare_def shareChecksPass_def Round_def round_rb_def
        index_def Let_def split: outcome.splits)

lemma RecvShare_accepted_state:
  "sigHistory r \<noteq> [] \<Longrightarrow> shareChecksPass X r s \<Longrightarrow>
     snd (RecvRandBeaconSigShare X r s g)
       = r\<lparr> curRoundShares := fmupd (shareHash X s) s (curRoundShares r) \<rparr>"
  by (auto simp add: RecvRandBeaconSigShare_def shareChecksPass_def Round_def round_rb_def
        index_def Let_def split: outcome.splits)

lemma RecvShare_below_threshold:
  "sigHistory r \<noteq> [] \<Longrightarrow> shareChecksPass X r s \<Longrightarrow>
   int (fcard (fmdom (fmupd (shareHash X s) s (curRoundShares r)))) < GroupThreshold (cfg r) \<Longrightarrow>
     fst (RecvRandBeaconSigShare X r s g) = Return (None, None)"
  by (auto simp add: RecvRandBeaconSigShare_def shareChecksPass_def Round_def round_rb_def
        index_def Let_def split: outcome.splits)

lemma RecvShare_threshold_met:
  "sigHistory r \<noteq> [] \<Longrightarrow> shareChecksPass X r s \<Longrightarrow>
   GroupThreshold (cfg r) \<le> int (fcard (fmdom (fmupd (shareHash X s) s (curRoundShares r)))) \<Longrightarrow>
   0 \<le> g \<Longrightarrow> g < int (length (groups r)) \<Longrightarrow>
   Verify X (recoverRandBeaconSig X (fmupd (shareHash X s) s (curRoundShares r)))
            (PK (groups r ! nat g))
            (Encode X \<lparr> SigRound = ShareRound s, LastRandVal = LastSigHash s, Sig = [] \<rparr> False) \<Longrightarrow>
     fst (RecvRandBeaconSigShare X r s g) =
       Return (Some \<lparr> SigRound = ShareRound s, LastRandVal = LastSigHash s,
                      Sig = Serialize X (recoverRandBeaconSig X
                              (fmupd (shareHash X s) s (curRoundShares r))) \<rparr>, None)"
  by (auto simp add: RecvRandBeaconSigShare_def shareChecksPass_def Round_def round_rb_def
        index_def Let_def split: outcome.splits)


lemma NewRandomBeacon_fields:
  "cfg (NewRandomBeacon X seed gs c) = c"
  "groups (NewRandomBeacon X seed gs c) = gs"
  "curRoundShares (NewRandomBeacon X seed gs c) = fmempty"
  "sigHistory (NewRandomBeacon X seed gs c) =
     [\<lparr> SigRound = 0, LastRandVal = HashZero X, Sig = ''DEX random beacon 0th signature'' \<rparr>]"
  "rbRand (NewRandomBeacon X seed gs c) = Derive X seed ''random beacon committee rand seed''"
  "bpRand (NewRandomBeacon X seed gs c) = Derive X seed ''block proposer committee rand seed''"
  "ntRand (NewRandomBeacon X seed gs c) = Derive X seed ''notarization committee rand seed''"
  "nextRBCmteHistory (NewRandomBeacon X seed gs c) =
     [Mod X (Derive X seed ''random beacon committee rand seed'') (int (length gs))]"
  "nextBPCmteHistory (NewRandomBeacon X seed gs c) =
     [Mod X (Derive X seed ''block proposer committee rand seed'') (int (length gs))]"
  "nextNtCmteHistory (NewRandomBeacon X seed gs c) =
     [Mod X (Derive X seed ''notarization committee rand seed'') (int (length gs))]"
  by (simp_all add: NewRandomBeacon_def Let_def)

lemma demoShare_checks: "shareChecksPass demoExt demoBeacon (demoShare a)"
  by (simp add: shareChecksPass_def demoBeacon_Round demoShare_def demoExt_simps)
     (simp add: demoBeacon_def NewRandomBeacon_fields)

lemma demoBeacon_sigHistory_nonempty: "sigHistory demoBeacon \<noteq> []"
  by (simp add: demoBeacon_def NewRandomBeacon_fields)

lemma demoBeacon1_eq:
  "demoBeacon1 = demoBeacon\<lparr> curRoundShares :=
      fmupd (demoShareHash (demoShare ''A'')) (demoShare ''A'') fmempty \<rparr>"
  using RecvShare_accepted_state [OF demoBeacon_sigHistory_nonempty demoShare_checks, of "''A''" 0]
  by (simp add: demoBeacon1_def demoExt_simps) (simp add: demoBeacon_def NewRandomBeacon_fields)

lemma demoShareHash_A_B: "demoShareHash (demoShare ''A'') \<noteq> demoShareHash (demoShare ''B'')"
  by (simp add: demoShareHash_def demoShare_def demoHash_def bytesToNat_def)

lemma demoShare_checks1: "shareChecksPass demoExt demoBeacon1 (demoShare a)"
  using demoShare_checks [of a]
  by (simp add: shareChecksPass_def demoBeacon1_eq Round_def round_rb_def)


lemma RecvShare_threshold_general:
  assumes "sigHistory r \<noteq> []" and "shareChecksPass X r s"
  shows "(int (fcard (fmdom (curRoundShares (snd (RecvRandBeaconSigShare X r s g)))))
            < GroupThreshold (cfg r)
          \<longrightarrow> fst (RecvRandBeaconSigShare X r s g) = Return (None, None))
       \<and> (GroupThreshold (cfg r)
            \<le> int (fcard (fmdom (curRoundShares (snd (RecvRandBeaconSigShare X r s g)))))
          \<and> 0 \<le> g \<and> g < int (length (groups r))
          \<and> Verify X (recoverRandBeaconSig X (curRoundShares (snd (RecvRandBeaconSigShare X r s g))))
                (PK (groups r ! nat g))
                (Encode X \<lparr> SigRound = ShareRound s, LastRandVal = LastSigHash s, Sig = [] \<rparr> False)
          \<longrightarrow> (\<exists>sg. fst (RecvRandBeaconSigShare X r s g) = Return (Some sg, None)
                  \<and> SigRound sg = ShareRound s \<and> LastRandVal sg = LastSigHash s))"
proof -
  have st: "snd (RecvRandBeaconSigShare X r s g)
              = r\<lparr> curRoundShares := fmupd (shareHash X s) s (curRoundShares r) \<rparr>"
    using assms by (rule RecvShare_accepted_state)
  show ?thesis
  proof (intro conjI impI)
    assume "int (fcard (fmdom (curRoundShares (snd (RecvRandBeaconSigShare X r s g)))))
              < GroupThreshold (cfg r)"
    then show "fst (RecvRandBeaconSigShare X r s g) = Return (None, None)"
      using assms by (simp add: st RecvShare_below_threshold)
  next
    assume a: "GroupThreshold (cfg r)
            \<le> int (fcard (fmdom (curRoundShares (snd (RecvRandBeaconSigShare X r s g)))))
          \<and> 0 \<le> g \<and> g < int (length (groups r))
          \<and> Verify X (recoverRandBeaconSig X (curRoundShares (snd (RecvRandBeaconSigShare X r s g))))
                (PK (groups r ! nat g))
                (Encode X \<lparr> SigRound = ShareRound s, LastRandVal = LastSigHash s, Sig = [] \<rparr> False)"
    have "fst (RecvRandBeaconSigShare X r s g) =
       Return (Some \<lparr> SigRound = ShareRound s, LastRandVal = LastSigHash s,
                      Sig = Serialize X (recoverRandBeaconSig X
                              (fmupd (shareHash X s) s (curRoundShares r))) \<rparr>, None)"
      using assms a by (intro RecvShare_threshold_met) (simp_all add: st)
    then show "\<exists>sg. fst (RecvRandBeaconSigShare X r s g) = Return (Some sg, None)
                  \<and> SigRound sg = ShareRound s \<and> LastRandVal sg = LastSigHash s"
      by simp
  qed
qed

lemma shareChecksPass_shares_irrelevant:
  "shareChecksPass X (r\<lparr> curRoundShares := m \<rparr>) s = shareChecksPass X r s"
  by (simp add: shareChecksPass_def Round_def round_rb_def)

lemma fresh_Round: "Round (NewRandomBeacon X seed gs c) = 1"
  by (simp add: Round_def round_rb_def NewRandomBeacon_fields)

lemma RecvShare_second_of_two:
  assumes thr: "GroupThreshold c = 2"
    and c1: "shareChecksPass X (NewRandomBeacon X seed gs c) s1"
    and c2: "shareChecksPass X (NewRandomBeacon X seed gs c) s2"
    and ne: "shareHash X s1 \<noteq> shareHash X s2"
    and g2: "0 \<le> g2" "g2 < int (length gs)"
    and ver: "Verify X (recoverRandBeaconSig X
                (fmupd (shareHash X s2) s2 (fmupd (shareHash X s1) s1 fmempty)))
                (PK (gs ! nat g2))
                (Encode X \<lparr> SigRound = 1, LastRandVal = LastSigHash s2, Sig = [] \<rparr> False)"
  shows "fst (RecvRandBeaconSigShare X (NewRandomBeacon X seed gs c) s1 g1) = Return (None, None)
       \<and> (\<exists>sg. fst (RecvRandBeaconSigShare X
                      (snd (RecvRandBeaconSigShare X (NewRandomBeacon X seed gs c) s1 g1)) s2 g2)
                  = Return (Some sg, None)
              \<and> SigRound sg = 1
              \<and> LastRandVal sg = hash X (Sig (sigHistory (NewRandomBeacon X seed gs c) ! 0)))"
proof -
  let ?r0 = "NewRandomBeacon X seed gs c"
  let ?r1 = "?r0\<lparr> curRoundShares := fmupd (shareHash X s1) s1 fmempty \<rparr>"
  have ne0: "sigHistory ?r0 \<noteq> []" by (simp add: NewRandomBeacon_fields)
  have st1: "snd (RecvRandBeaconSigShare X ?r0 s1 g1) = ?r1"
    using RecvShare_accepted_state [OF ne0 c1, of g1] by (simp add: NewRandomBeacon_fields)
  have first: "fst (RecvRandBeaconSigShare X ?r0 s1 g1) = Return (None, None)"
    using ne0 c1
    by (rule RecvShare_below_threshold) (simp add: NewRandomBeacon_fields thr fcard_finsert_if)
  have ne1: "sigHistory ?r1 \<noteq> []" by (simp add: NewRandomBeacon_fields)
  have c2': "shareChecksPass X ?r1 s2"
    using c2 by (simp add: shareChecksPass_shares_irrelevant)
  have r2: "ShareRound s2 = 1"
    using c2 by (simp add: shareChecksPass_def fresh_Round)
  have l2: "LastSigHash s2 = hash X (Sig (sigHistory ?r0 ! 0))"
    using c2 by (simp add: shareChecksPass_def fresh_Round)
  have "fst (RecvRandBeaconSigShare X ?r1 s2 g2) =
       Return (Some \<lparr> SigRound = ShareRound s2, LastRandVal = LastSigHash s2,
                      Sig = Serialize X (recoverRandBeaconSig X
                              (fmupd (shareHash X s2) s2 (curRoundShares ?r1))) \<rparr>, None)"
    using ne1 c2'
    by (rule RecvShare_threshold_met)
       (use ne g2 ver in \<open>simp_all add: NewRandomBeacon_fields thr fcard_finsert_if r2\<close>)
  then show ?thesis
    using first by (simp add: st1 r2 l2)
qed

text \<open>
  C2. A share that passes both checks is inserted. If the number of in-flight shares after
  the insertion is below \<open>GroupThreshold\<close>, the call returns \<open>(nil, nil)\<close>. If it has
  reached \<open>GroupThreshold\<close>, and the recovered signature verifies under the key of the
  group \<open>groupID\<close> (the source panics otherwise), the call returns a signature whose round
  is the share's round and whose \<open>LastRandVal\<close> is the share's \<open>LastSigHash\<close>. On a fresh
  beacon with threshold 2, the first of two shares with different hashes returns
  \<open>(nil, nil)\<close> and the second returns a signature of round 1 whose \<open>LastRandVal\<close> is the
  hash of the genesis signature.
\<close>

theorem RecvRandBeaconSigShare_threshold:
  "(sigHistory r \<noteq> [] \<and> shareChecksPass X r s \<longrightarrow>
      (int (fcard (fmdom (curRoundShares (snd (RecvRandBeaconSigShare X r s g)))))
            < GroupThreshold (cfg r)
          \<longrightarrow> fst (RecvRandBeaconSigShare X r s g) = Return (None, None))
       \<and> (GroupThreshold (cfg r)
            \<le> int (fcard (fmdom (curRoundShares (snd (RecvRandBeaconSigShare X r s g)))))
          \<and> 0 \<le> g \<and> g < int (length (groups r))
          \<and> Verify X (recoverRandBeaconSig X (curRoundShares (snd (RecvRandBeaconSigShare X r s g))))
                (PK (groups r ! nat g))
                (Encode X \<lparr> SigRound = ShareRound s, LastRandVal = LastSigHash s, Sig = [] \<rparr> False)
          \<longrightarrow> (\<exists>sg. fst (RecvRandBeaconSigShare X r s g) = Return (Some sg, None)
                  \<and> SigRound sg = ShareRound s \<and> LastRandVal sg = LastSigHash s)))
   \<and> (GroupThreshold c = 2
       \<and> shareChecksPass X (NewRandomBeacon X seed gs c) s1
       \<and> shareChecksPass X (NewRandomBeacon X seed gs c) s2
       \<and> shareHash X s1 \<noteq> shareHash X s2
       \<and> 0 \<le> g2 \<and> g2 < int (length gs)
       \<and> Verify X (recoverRandBeaconSig X
                (fmupd (shareHash X s2) s2 (fmupd (shareHash X s1) s1 fmempty)))
                (PK (gs ! nat g2))
                (Encode X \<lparr> SigRound = 1, LastRandVal = LastSigHash s2, Sig = [] \<rparr> False)
      \<longrightarrow> fst (RecvRandBeaconSigShare X (NewRandomBeacon X seed gs c) s1 g1) = Return (None, None)
         \<and> (\<exists>sg. fst (RecvRandBeaconSigShare X
                      (snd (RecvRandBeaconSigShare X (NewRandomBeacon X seed gs c) s1 g1)) s2 g2)
                  = Return (Some sg, None)
              \<and> SigRound sg = 1
              \<and> LastRandVal sg = hash X (Sig (sigHistory (NewRandomBeacon X seed gs c) ! 0))))"
  using RecvShare_threshold_general [of r X s g]
        RecvShare_second_of_two [of c X seed gs s1 s2 g2 g1]
  by blast

lemma demoBeacon_cfg: "cfg demoBeacon = demoCfg"
  by (simp add: demoBeacon_def NewRandomBeacon_fields)

theorem RecvRandBeaconSigShare_threshold_witness:
  "fst (RecvRandBeaconSigShare demoExt demoBeacon (demoShare ''A'') 0) = Return (None, None)
   \<and> (\<exists>sg. fst (RecvRandBeaconSigShare demoExt
                  (snd (RecvRandBeaconSigShare demoExt demoBeacon (demoShare ''A'') 0))
                  (demoShare ''B'') 0) = Return (Some sg, None)
          \<and> SigRound sg = 1
          \<and> LastRandVal sg = demoHash ''DEX random beacon 0th signature'')"
proof -
  have h: "GroupThreshold demoCfg = 2
       \<and> shareChecksPass demoExt (NewRandomBeacon demoExt ''seed'' demoGroups demoCfg) (demoShare ''A'')
       \<and> shareChecksPass demoExt (NewRandomBeacon demoExt ''seed'' demoGroups demoCfg) (demoShare ''B'')
       \<and> shareHash demoExt (demoShare ''A'') \<noteq> shareHash demoExt (demoShare ''B'')
       \<and> (0::int) \<le> 0 \<and> 0 < int (length demoGroups)
       \<and> Verify demoExt (recoverRandBeaconSig demoExt
                (fmupd (shareHash demoExt (demoShare ''B'')) (demoShare ''B'')
                   (fmupd (shareHash demoExt (demoShare ''A'')) (demoShare ''A'') fmempty)))
                (PK (demoGroups ! nat 0))
                (Encode demoExt \<lparr> SigRound = 1, LastRandVal = LastSigHash (demoShare ''B''), Sig = [] \<rparr> False)"
    using demoShare_checks [of "''A''"] demoShare_checks [of "''B''"] demoShareHash_A_B
    by (simp add: demoBeacon_def [symmetric] demoExt_simps) (simp add: demoCfg_def demoGroups_def)
  show ?thesis
    using h RecvRandBeaconSigShare_threshold
      [of demoBeacon demoExt "demoShare ''A''" 0 demoCfg "''seed''" demoGroups
          "demoShare ''A''" "demoShare ''B''" 0 0]
    by (simp add: demoBeacon_def [symmetric] demoExt_simps)
       (simp add: demoBeacon_def NewRandomBeacon_fields)
qed

text \<open>
  C3. A share whose round is not the current round, or whose \<open>LastSigHash\<close> is not the
  hash of the signature at \<open>sigHistory[s.Round - 1]\<close>, is rejected: the call returns an
  error and the beacon is the one it was given. Whenever the call changes the beacon, both
  checks have passed; and when both pass, the only change is that \<open>s\<close> is stored in
  \<open>curRoundShares\<close> under \<open>s.Hash()\<close>. (The signature history of a beacon built by
  \<open>NewRandomBeacon\<close> is never empty; on an empty one the second check would panic.)
\<close>

theorem RecvRandBeaconSigShare_rejects:
  "(ShareRound s \<noteq> Round r \<longrightarrow>
      (\<exists>e. RecvRandBeaconSigShare X r s g = (Return (None, Some e), r)))
   \<and> (sigHistory r \<noteq> [] \<and> ShareRound s = Round r
        \<and> LastSigHash s \<noteq> hash X (Sig (sigHistory r ! nat (ShareRound s - 1))) \<longrightarrow>
      (\<exists>e. RecvRandBeaconSigShare X r s g = (Return (None, Some e), r)))
   \<and> (snd (RecvRandBeaconSigShare X r s g) \<noteq> r \<longrightarrow>
        ShareRound s = Round r
        \<and> LastSigHash s = hash X (Sig (sigHistory r ! nat (ShareRound s - 1))))
   \<and> (sigHistory r \<noteq> [] \<and> ShareRound s = Round r
        \<and> LastSigHash s = hash X (Sig (sigHistory r ! nat (ShareRound s - 1))) \<longrightarrow>
        snd (RecvRandBeaconSigShare X r s g)
          = r\<lparr> curRoundShares := fmupd (shareHash X s) s (curRoundShares r) \<rparr>
        \<and> GetShare (snd (RecvRandBeaconSigShare X r s g)) (shareHash X s) = Some s)"
proof (intro conjI impI)
  assume "ShareRound s \<noteq> Round r"
  then show "\<exists>e. RecvRandBeaconSigShare X r s g = (Return (None, Some e), r)"
    using RecvShare_wrong_round [of s r X g] by blast
next
  assume "sigHistory r \<noteq> [] \<and> ShareRound s = Round r
        \<and> LastSigHash s \<noteq> hash X (Sig (sigHistory r ! nat (ShareRound s - 1)))"
  then show "\<exists>e. RecvRandBeaconSigShare X r s g = (Return (None, Some e), r)"
    using RecvShare_wrong_hash [of r s X g] by blast
next
  assume "snd (RecvRandBeaconSigShare X r s g) \<noteq> r"
  then have "shareChecksPass X r s"
    using RecvShare_snd_cases [of X r s g] by blast
  then show "ShareRound s = Round r"
    and "LastSigHash s = hash X (Sig (sigHistory r ! nat (ShareRound s - 1)))"
    by (simp_all add: shareChecksPass_def)
next
  assume a: "sigHistory r \<noteq> [] \<and> ShareRound s = Round r
        \<and> LastSigHash s = hash X (Sig (sigHistory r ! nat (ShareRound s - 1)))"
  then have "shareChecksPass X r s" by (simp add: shareChecksPass_def)
  with a have st: "snd (RecvRandBeaconSigShare X r s g)
          = r\<lparr> curRoundShares := fmupd (shareHash X s) s (curRoundShares r) \<rparr>"
    by (simp add: RecvShare_accepted_state)
  then show "snd (RecvRandBeaconSigShare X r s g)
          = r\<lparr> curRoundShares := fmupd (shareHash X s) s (curRoundShares r) \<rparr>" .
  from st show "GetShare (snd (RecvRandBeaconSigShare X r s g)) (shareHash X s) = Some s"
    by (simp add: GetShare_def)
qed



lemma demoBeacon_genesis:
  "sigHistory demoBeacon =
     [\<lparr> SigRound = 0, LastRandVal = replicate 32 (CHR 0x00),
        Sig = ''DEX random beacon 0th signature'' \<rparr>]"
  by (simp add: demoBeacon_def NewRandomBeacon_fields demoExt_simps)

lemma demoBeacon_shares: "curRoundShares demoBeacon = fmempty"
  by (simp add: demoBeacon_def NewRandomBeacon_fields)

lemma unboundShare_hash:
  "LastSigHash unboundShare
     \<noteq> hash demoExt (Sig (sigHistory demoBeacon ! nat (ShareRound unboundShare - 1)))"
  by (simp add: unboundShare_def demoBeacon_genesis demoExt_simps demoHash_def)

theorem RecvRandBeaconSigShare_rejects_witness:
  "ShareRound staleShare \<noteq> Round demoBeacon
   \<and> (\<exists>e. RecvRandBeaconSigShare demoExt demoBeacon staleShare 0 = (Return (None, Some e), demoBeacon))
   \<and> sigHistory demoBeacon \<noteq> [] \<and> ShareRound unboundShare = Round demoBeacon
   \<and> LastSigHash unboundShare
        \<noteq> hash demoExt (Sig (sigHistory demoBeacon ! nat (ShareRound unboundShare - 1)))
   \<and> (\<exists>e. RecvRandBeaconSigShare demoExt demoBeacon unboundShare 0 = (Return (None, Some e), demoBeacon))
   \<and> ShareRound (demoShare ''A'') = Round demoBeacon
   \<and> LastSigHash (demoShare ''A'')
        = hash demoExt (Sig (sigHistory demoBeacon ! nat (ShareRound (demoShare ''A'') - 1)))
   \<and> GetShare (snd (RecvRandBeaconSigShare demoExt demoBeacon (demoShare ''A'') 0))
        (shareHash demoExt (demoShare ''A'')) = Some (demoShare ''A'')"
proof -
  have a: "ShareRound staleShare \<noteq> Round demoBeacon"
    by (simp add: staleShare_def demoBeacon_Round)
  have b1: "sigHistory demoBeacon \<noteq> []"
    by (rule demoBeacon_sigHistory_nonempty)
  have b2: "ShareRound unboundShare = Round demoBeacon"
    by (simp add: unboundShare_def demoBeacon_Round)
  note b3 = unboundShare_hash
  have c2: "ShareRound (demoShare ''A'') = Round demoBeacon"
    and c3: "LastSigHash (demoShare ''A'')
        = hash demoExt (Sig (sigHistory demoBeacon ! nat (ShareRound (demoShare ''A'') - 1)))"
    using demoShare_checks [of "''A''"] by (simp_all add: shareChecksPass_def)
  have r1: "\<exists>e. RecvRandBeaconSigShare demoExt demoBeacon staleShare 0
              = (Return (None, Some e), demoBeacon)"
    using a RecvRandBeaconSigShare_rejects [of staleShare demoBeacon demoExt 0] by blast
  have r2: "\<exists>e. RecvRandBeaconSigShare demoExt demoBeacon unboundShare 0
              = (Return (None, Some e), demoBeacon)"
    using b1 b2 b3 RecvRandBeaconSigShare_rejects [of unboundShare demoBeacon demoExt 0] by blast
  have r3: "GetShare (snd (RecvRandBeaconSigShare demoExt demoBeacon (demoShare ''A'') 0))
        (shareHash demoExt (demoShare ''A'')) = Some (demoShare ''A'')"
    using b1 c2 c3 RecvRandBeaconSigShare_rejects [of "demoShare ''A''" demoBeacon demoExt 0]
    by blast
  from a b1 b2 b3 c2 c3 r1 r2 r3 show ?thesis by blast
qed

lemma RecvShare_frame:
  "snd (RecvRandBeaconSigShare X r s g)
     = r\<lparr> curRoundShares := curRoundShares (snd (RecvRandBeaconSigShare X r s g)) \<rparr>"
  using RecvShare_snd_cases [of X r s g] by auto

lemma RecvShare_returns_sig_state:
  "fst (RecvRandBeaconSigShare X r s g) = Return (Some sg, e) \<Longrightarrow>
     snd (RecvRandBeaconSigShare X r s g)
       = r\<lparr> curRoundShares := fmupd (shareHash X s) s (curRoundShares r) \<rparr>"
  by (auto simp add: RecvRandBeaconSigShare_def index_def Let_def
        split: outcome.splits if_splits)

lemma RecvSig_accepted_clears:
  "SigRound sg = Round r \<Longrightarrow> curRoundShares (snd (RecvRandBeaconSig X r sg)) = fmempty"
  by (simp add: RecvRandBeaconSig_def Round_def Let_def)

text \<open>
  C9. \<open>RecvRandBeaconSigShare\<close> changes nothing but \<open>curRoundShares\<close>, whatever it
  returns (also when it panics): the signature history, the three committee histories, the
  three streams, the group list and the configuration are those it was given. When it
  returns a recovered signature, \<open>curRoundShares\<close> holds the shares it held before
  together with the share that met the threshold; the shares go only when a later
  \<open>RecvRandBeaconSig\<close> of the current round replaces the set by the empty one.
\<close>

theorem RecvRandBeaconSigShare_frame:
  "sigHistory (snd (RecvRandBeaconSigShare X r s g)) = sigHistory r
   \<and> nextRBCmteHistory (snd (RecvRandBeaconSigShare X r s g)) = nextRBCmteHistory r
   \<and> nextNtCmteHistory (snd (RecvRandBeaconSigShare X r s g)) = nextNtCmteHistory r
   \<and> nextBPCmteHistory (snd (RecvRandBeaconSigShare X r s g)) = nextBPCmteHistory r
   \<and> rbRand (snd (RecvRandBeaconSigShare X r s g)) = rbRand r
   \<and> ntRand (snd (RecvRandBeaconSigShare X r s g)) = ntRand r
   \<and> bpRand (snd (RecvRandBeaconSigShare X r s g)) = bpRand r
   \<and> groups (snd (RecvRandBeaconSigShare X r s g)) = groups r
   \<and> cfg (snd (RecvRandBeaconSigShare X r s g)) = cfg r
   \<and> snd (RecvRandBeaconSigShare X r s g)
        = r\<lparr> curRoundShares := curRoundShares (snd (RecvRandBeaconSigShare X r s g)) \<rparr>
   \<and> (\<forall>sg e. fst (RecvRandBeaconSigShare X r s g) = Return (Some sg, e) \<longrightarrow>
         curRoundShares (snd (RecvRandBeaconSigShare X r s g))
           = fmupd (shareHash X s) s (curRoundShares r)
         \<and> GetShare (snd (RecvRandBeaconSigShare X r s g)) (shareHash X s) = Some s
         \<and> (\<forall>h. h \<noteq> shareHash X s \<longrightarrow>
               GetShare (snd (RecvRandBeaconSigShare X r s g)) h = GetShare r h))
   \<and> (\<forall>sg'. SigRound sg' = Round (snd (RecvRandBeaconSigShare X r s g)) \<longrightarrow>
         curRoundShares (snd (RecvRandBeaconSig X (snd (RecvRandBeaconSigShare X r s g)) sg'))
           = fmempty)"
proof -
  have f: "snd (RecvRandBeaconSigShare X r s g)
     = r\<lparr> curRoundShares := curRoundShares (snd (RecvRandBeaconSigShare X r s g)) \<rparr>"
    by (rule RecvShare_frame)
  have fields: "sigHistory (snd (RecvRandBeaconSigShare X r s g)) = sigHistory r"
    "nextRBCmteHistory (snd (RecvRandBeaconSigShare X r s g)) = nextRBCmteHistory r"
    "nextNtCmteHistory (snd (RecvRandBeaconSigShare X r s g)) = nextNtCmteHistory r"
    "nextBPCmteHistory (snd (RecvRandBeaconSigShare X r s g)) = nextBPCmteHistory r"
    "rbRand (snd (RecvRandBeaconSigShare X r s g)) = rbRand r"
    "ntRand (snd (RecvRandBeaconSigShare X r s g)) = ntRand r"
    "bpRand (snd (RecvRandBeaconSigShare X r s g)) = bpRand r"
    "groups (snd (RecvRandBeaconSigShare X r s g)) = groups r"
    "cfg (snd (RecvRandBeaconSigShare X r s g)) = cfg r"
    by (subst f, simp)+
  have sg: "\<forall>sg e. fst (RecvRandBeaconSigShare X r s g) = Return (Some sg, e) \<longrightarrow>
         curRoundShares (snd (RecvRandBeaconSigShare X r s g))
           = fmupd (shareHash X s) s (curRoundShares r)
         \<and> GetShare (snd (RecvRandBeaconSigShare X r s g)) (shareHash X s) = Some s
         \<and> (\<forall>h. h \<noteq> shareHash X s \<longrightarrow>
               GetShare (snd (RecvRandBeaconSigShare X r s g)) h = GetShare r h)"
  proof (intro allI impI)
    fix sg e
    assume "fst (RecvRandBeaconSigShare X r s g) = Return (Some sg, e)"
    then have "snd (RecvRandBeaconSigShare X r s g)
       = r\<lparr> curRoundShares := fmupd (shareHash X s) s (curRoundShares r) \<rparr>"
      by (rule RecvShare_returns_sig_state)
    then show "curRoundShares (snd (RecvRandBeaconSigShare X r s g))
           = fmupd (shareHash X s) s (curRoundShares r)
         \<and> GetShare (snd (RecvRandBeaconSigShare X r s g)) (shareHash X s) = Some s
         \<and> (\<forall>h. h \<noteq> shareHash X s \<longrightarrow>
               GetShare (snd (RecvRandBeaconSigShare X r s g)) h = GetShare r h)"
      by (simp add: GetShare_def)
  qed
  have cl: "\<forall>sg'. SigRound sg' = Round (snd (RecvRandBeaconSigShare X r s g)) \<longrightarrow>
         curRoundShares (snd (RecvRandBeaconSig X (snd (RecvRandBeaconSigShare X r s g)) sg'))
           = fmempty"
    by (simp add: RecvSig_accepted_clears)
  from f fields sg cl show ?thesis by blast
qed


lemma demoBeacon2_eq:
  "demoBeacon2 = demoBeacon\<lparr> curRoundShares :=
      fmupd (demoShareHash (demoShare ''B'')) (demoShare ''B'')
        (fmupd (demoShareHash (demoShare ''A'')) (demoShare ''A'') fmempty) \<rparr>"
proof -
  have ne: "sigHistory demoBeacon1 \<noteq> []"
    by (simp add: demoBeacon1_eq demoBeacon_sigHistory_nonempty)
  show ?thesis
    using RecvShare_accepted_state [OF ne demoShare_checks1, of "''B''" 0]
    by (simp add: demoBeacon2_def demoExt_simps) (simp add: demoBeacon1_eq)
qed

lemma demoShare_B_returns_sig:
  "fst (RecvRandBeaconSigShare demoExt demoBeacon1 (demoShare ''B'') 0)
     = Return (Some demoSig, None)"
proof -
  have ne: "sigHistory demoBeacon1 \<noteq> []"
    by (simp add: demoBeacon1_eq demoBeacon_sigHistory_nonempty)
  have thr: "GroupThreshold (cfg demoBeacon1)
      \<le> int (fcard (fmdom (fmupd (shareHash demoExt (demoShare ''B'')) (demoShare ''B'')
                (curRoundShares demoBeacon1))))"
    using demoShareHash_A_B
    by (simp add: demoBeacon1_eq demoBeacon_cfg demoCfg_def demoExt_simps fcard_finsert_if)
  have g: "(0::int) \<le> 0" "0 < int (length (groups demoBeacon1))"
    by (simp_all add: demoBeacon1_eq demoBeacon_groups demoGroups_def)
  have v: "Verify demoExt
            (recoverRandBeaconSig demoExt
               (fmupd (shareHash demoExt (demoShare ''B'')) (demoShare ''B'')
                  (curRoundShares demoBeacon1)))
            (PK (groups demoBeacon1 ! nat 0))
            (Encode demoExt \<lparr> SigRound = ShareRound (demoShare ''B''),
                               LastRandVal = LastSigHash (demoShare ''B''), Sig = [] \<rparr> False)"
    by (simp add: demoExt_simps)
  show ?thesis
    using RecvShare_threshold_met [OF ne demoShare_checks1 thr g v]
    by (simp add: demoExt_simps demoSig_def demoShare_def)
qed

theorem RecvRandBeaconSigShare_frame_witness:
  "fst (RecvRandBeaconSigShare demoExt demoBeacon1 (demoShare ''B'') 0)
     = Return (Some demoSig, None)
   \<and> sigHistory (snd (RecvRandBeaconSigShare demoExt demoBeacon1 (demoShare ''B'') 0))
       = sigHistory demoBeacon1
   \<and> GetShare (snd (RecvRandBeaconSigShare demoExt demoBeacon1 (demoShare ''B'') 0))
       (shareHash demoExt (demoShare ''B'')) = Some (demoShare ''B'')
   \<and> GetShare (snd (RecvRandBeaconSigShare demoExt demoBeacon1 (demoShare ''B'') 0))
       (shareHash demoExt (demoShare ''A'')) = Some (demoShare ''A'')
   \<and> SigRound demoSig = Round (snd (RecvRandBeaconSigShare demoExt demoBeacon1 (demoShare ''B'') 0))
   \<and> curRoundShares (snd (RecvRandBeaconSig demoExt
         (snd (RecvRandBeaconSigShare demoExt demoBeacon1 (demoShare ''B'') 0)) demoSig))
       = fmempty"
proof -
  note fr = RecvRandBeaconSigShare_frame [of demoExt demoBeacon1 "demoShare ''B''" 0]
  note ret = demoShare_B_returns_sig
  have h1: "sigHistory (snd (RecvRandBeaconSigShare demoExt demoBeacon1 (demoShare ''B'') 0))
       = sigHistory demoBeacon1"
    using fr by blast
  have h2: "GetShare (snd (RecvRandBeaconSigShare demoExt demoBeacon1 (demoShare ''B'') 0))
       (shareHash demoExt (demoShare ''B'')) = Some (demoShare ''B'')"
    using fr ret by blast
  have ne: "shareHash demoExt (demoShare ''A'') \<noteq> shareHash demoExt (demoShare ''B'')"
    using demoShareHash_A_B by (simp add: demoExt_simps)
  have "GetShare (snd (RecvRandBeaconSigShare demoExt demoBeacon1 (demoShare ''B'') 0))
       (shareHash demoExt (demoShare ''A''))
        = GetShare demoBeacon1 (shareHash demoExt (demoShare ''A''))"
    using fr ret ne by blast
  then have h3: "GetShare (snd (RecvRandBeaconSigShare demoExt demoBeacon1 (demoShare ''B'') 0))
       (shareHash demoExt (demoShare ''A'')) = Some (demoShare ''A'')"
    by (simp add: GetShare_def demoBeacon1_eq demoExt_simps)
  have h4: "SigRound demoSig
      = Round (snd (RecvRandBeaconSigShare demoExt demoBeacon1 (demoShare ''B'') 0))"
    using h1 demoBeacon_Round
    by (simp add: Round_def round_rb_def demoSig_def demoBeacon1_eq)
  have h5: "curRoundShares (snd (RecvRandBeaconSig demoExt
         (snd (RecvRandBeaconSigShare demoExt demoBeacon1 (demoShare ''B'') 0)) demoSig))
       = fmempty"
    using fr h4 by blast
  from ret h1 h2 h3 h4 h5 show ?thesis by blast
qed

lemma fmupd_same_key_dom:
  "fmdom (fmupd h s' (fmupd h s m)) = fmdom (fmupd h s m)"
  by simp

text \<open>
  C10. After a share \<open>s\<close> has been accepted, a second call with a share of the same
  \<open>Hash()\<close> leaves the beacon as it was but for the value stored under that hash: the set
  of keys of \<open>curRoundShares\<close> and so the count compared with \<open>GroupThreshold\<close> are those
  after the first call, and every other field is unchanged. When the second share is \<open>s\<close>
  itself, the beacon after the second call is exactly the beacon after the first.
\<close>

theorem resubmitted_share_idempotent:
  assumes "sigHistory r \<noteq> []" and "shareChecksPass X r s"
    and "shareHash X s' = shareHash X s"
  shows "fmdom (curRoundShares (snd (RecvRandBeaconSigShare X
                  (snd (RecvRandBeaconSigShare X r s g)) s' g')))
           = fmdom (curRoundShares (snd (RecvRandBeaconSigShare X r s g)))
       \<and> fcard (fmdom (curRoundShares (snd (RecvRandBeaconSigShare X
                  (snd (RecvRandBeaconSigShare X r s g)) s' g'))))
           = fcard (fmdom (curRoundShares (snd (RecvRandBeaconSigShare X r s g))))
       \<and> snd (RecvRandBeaconSigShare X (snd (RecvRandBeaconSigShare X r s g)) s' g')
           = (snd (RecvRandBeaconSigShare X r s g))
               \<lparr> curRoundShares := curRoundShares (snd (RecvRandBeaconSigShare X
                    (snd (RecvRandBeaconSigShare X r s g)) s' g')) \<rparr>
       \<and> (s' = s \<longrightarrow>
            snd (RecvRandBeaconSigShare X (snd (RecvRandBeaconSigShare X r s g)) s' g')
              = snd (RecvRandBeaconSigShare X r s g))"
proof -
  let ?r1 = "snd (RecvRandBeaconSigShare X r s g)"
  let ?r2 = "snd (RecvRandBeaconSigShare X ?r1 s' g')"
  have st1: "?r1 = r\<lparr> curRoundShares := fmupd (shareHash X s) s (curRoundShares r) \<rparr>"
    using assms(1,2) by (rule RecvShare_accepted_state)
  have cases: "?r2 = ?r1 \<or>
     ?r2 = ?r1\<lparr> curRoundShares := fmupd (shareHash X s') s' (curRoundShares ?r1) \<rparr>"
    using RecvShare_snd_cases [of X ?r1 s' g'] by blast
  have dom: "fmdom (curRoundShares ?r2) = fmdom (curRoundShares ?r1)"
    using cases
  proof
    assume "?r2 = ?r1" then show ?thesis by simp
  next
    assume "?r2 = ?r1\<lparr> curRoundShares := fmupd (shareHash X s') s' (curRoundShares ?r1) \<rparr>"
    then have "curRoundShares ?r2 = fmupd (shareHash X s') s' (curRoundShares ?r1)"
      by simp
    then show ?thesis by (simp add: st1 assms(3))
  qed
  have frame: "?r2 = ?r1\<lparr> curRoundShares := curRoundShares ?r2 \<rparr>"
    by (rule RecvShare_frame)
  have same: "s' = s \<longrightarrow> ?r2 = ?r1"
  proof
    assume e: "s' = s"
    from cases show "?r2 = ?r1"
    proof
      assume "?r2 = ?r1" then show ?thesis .
    next
      assume "?r2 = ?r1\<lparr> curRoundShares := fmupd (shareHash X s') s' (curRoundShares ?r1) \<rparr>"
      moreover have "?r1\<lparr> curRoundShares := fmupd (shareHash X s') s' (curRoundShares ?r1) \<rparr> = ?r1"
        by (subst (1 2 3) st1) (simp add: e)
      ultimately show ?thesis by simp
    qed
  qed
  from dom frame same show ?thesis by simp
qed

theorem resubmitted_share_idempotent_witness:
  "sigHistory demoBeacon \<noteq> [] \<and> shareChecksPass demoExt demoBeacon (demoShare ''A'')
   \<and> snd (RecvRandBeaconSigShare demoExt
           (snd (RecvRandBeaconSigShare demoExt demoBeacon (demoShare ''A'') 0))
           (demoShare ''A'') 0)
       = snd (RecvRandBeaconSigShare demoExt demoBeacon (demoShare ''A'') 0)
   \<and> fcard (fmdom (curRoundShares (snd (RecvRandBeaconSigShare demoExt
           (snd (RecvRandBeaconSigShare demoExt demoBeacon (demoShare ''A'') 0))
           (demoShare ''A'') 0)))) = 1"
proof -
  note t = resubmitted_share_idempotent
    [OF demoBeacon_sigHistory_nonempty demoShare_checks refl,
     of "''A''" 0 0]
  have eq: "snd (RecvRandBeaconSigShare demoExt
           (snd (RecvRandBeaconSigShare demoExt demoBeacon (demoShare ''A'') 0))
           (demoShare ''A'') 0)
       = snd (RecvRandBeaconSigShare demoExt demoBeacon (demoShare ''A'') 0)"
    using t by blast
  have c: "fcard (fmdom (curRoundShares
             (snd (RecvRandBeaconSigShare demoExt demoBeacon (demoShare ''A'') 0)))) = 1"
    by (simp add: demoBeacon1_def [symmetric] demoBeacon1_eq fcard_finsert_if)
  from eq c demoBeacon_sigHistory_nonempty demoShare_checks show ?thesis by simp
qed

lemma streamHistory_nonempty: "streamHistory X r0 ss \<noteq> []"
  by (cases ss) simp_all

lemma length_streamHistory: "length (streamHistory X r0 ss) = Suc (length ss)"
  by (induction ss arbitrary: r0) simp_all

lemma streamHistory_snoc:
  "streamHistory X r0 (ss @ [s])
     = streamHistory X r0 ss @ [Derive X (last (streamHistory X r0 ss)) (hash X (Sig s))]"
  by (induction ss arbitrary: r0) (simp_all add: streamHistory_nonempty)

lemma cmteHistoryOf_snoc:
  "sigs \<noteq> [] \<Longrightarrow>
   cmteHistoryOf X seed label n (sigs @ [s])
     = cmteHistoryOf X seed label n sigs
       @ [Mod X (Derive X (streamOf X seed label sigs) (hash X (Sig s))) (int n)]"
  by (simp add: cmteHistoryOf_def streamOf_def streamHistory_snoc)

lemma streamOf_snoc:
  "sigs \<noteq> [] \<Longrightarrow>
   streamOf X seed label (sigs @ [s]) = Derive X (streamOf X seed label sigs) (hash X (Sig s))"
  by (simp add: streamOf_def streamHistory_snoc)

lemma length_cmteHistoryOf:
  "sigs \<noteq> [] \<Longrightarrow> length (cmteHistoryOf X seed label n sigs) = length sigs"
  by (simp add: cmteHistoryOf_def length_streamHistory)

lemma beaconInv_New: "beaconInv X seed gs (NewRandomBeacon X seed gs c)"
  by (simp add: beaconInv_def NewRandomBeacon_fields genesisSig_def cmteHistoryOf_def
        streamOf_def)

lemma RecvSig_cases:
  "RecvRandBeaconSig X r s =
     (if SigRound s = Round r
      then (None, (deriveRand X r (hash X (Sig s)))
                    \<lparr> curRoundShares := fmempty, sigHistory := sigHistory r @ [s] \<rparr>)
      else (Some (UnexpectedSigRound (SigRound s) (Round r)), r))"
  by (auto simp add: RecvRandBeaconSig_def Round_def Let_def deriveRand_eq)

lemma beaconInv_RecvSig:
  assumes "beaconInv X seed gs r"
  shows "beaconInv X seed gs (snd (RecvRandBeaconSig X r s))"
proof (cases "SigRound s = Round r")
  case False
  then show ?thesis using assms by (simp add: RecvSig_cases)
next
  case True
  from assms have ne: "sigHistory r \<noteq> []" by (simp add: beaconInv_def)
  have hd: "hd (sigHistory r @ [s]) = hd (sigHistory r)" using ne by simp
  show ?thesis
    using assms ne
    by (simp add: RecvSig_cases True deriveRand_eq beaconInv_def hd
          cmteHistoryOf_snoc streamOf_snoc)
qed

lemma beaconInv_shares:
  "beaconInv X seed gs (r\<lparr> curRoundShares := m \<rparr>) = beaconInv X seed gs r"
  by (simp add: beaconInv_def)

lemma beaconInv_RecvShare:
  assumes "beaconInv X seed gs r"
  shows "beaconInv X seed gs (snd (RecvRandBeaconSigShare X r s g))"
proof -
  have "snd (RecvRandBeaconSigShare X r s g)
     = r\<lparr> curRoundShares := curRoundShares (snd (RecvRandBeaconSigShare X r s g)) \<rparr>"
    by (rule RecvShare_frame)
  then have "beaconInv X seed gs (snd (RecvRandBeaconSigShare X r s g))
     = beaconInv X seed gs r"
    by (metis beaconInv_shares)
  then show ?thesis using assms by simp
qed

lemma beaconInv_run:
  "beaconInv X seed gs r \<Longrightarrow> run X r ops = Some r' \<Longrightarrow> beaconInv X seed gs r'"
proof (induction ops arbitrary: r)
  case Nil
  then show ?case by simp
next
  case (Cons x ops)
  show ?case
  proof (cases x)
    case (OpShare s g)
    obtain out r1 where e: "RecvRandBeaconSigShare X r s g = (out, r1)"
      by (cases "RecvRandBeaconSigShare X r s g")
    with Cons.prems OpShare have "run X r1 ops = Some r'"
      by (cases out) simp_all
    moreover have "beaconInv X seed gs r1"
      using beaconInv_RecvShare [OF Cons.prems(1), of s g] e by simp
    ultimately show ?thesis by (rule Cons.IH [rotated])
  next
    case (OpSig s)
    with Cons.prems have "run X (snd (RecvRandBeaconSig X r s)) ops = Some r'" by simp
    moreover have "beaconInv X seed gs (snd (RecvRandBeaconSig X r s))"
      using Cons.prems(1) by (rule beaconInv_RecvSig)
    ultimately show ?thesis by (rule Cons.IH [rotated])
  qed
qed

lemma Round_RecvShare: "Round (snd (RecvRandBeaconSigShare X r s g)) = Round r"
proof -
  have "snd (RecvRandBeaconSigShare X r s g)
     = r\<lparr> curRoundShares := curRoundShares (snd (RecvRandBeaconSigShare X r s g)) \<rparr>"
    by (rule RecvShare_frame)
  then have "sigHistory (snd (RecvRandBeaconSigShare X r s g)) = sigHistory r"
    by (metis RandomBeacon.select_convs(10) RandomBeacon.surjective RandomBeacon.update_convs(9))
  then show ?thesis by (simp add: Round_def round_rb_def)
qed

lemma run_Round:
  "run X r ops = Some r' \<Longrightarrow> Round r' = Round r + int (acceptedSigs X r ops)"
proof (induction ops arbitrary: r)
  case Nil
  then show ?case by simp
next
  case (Cons x ops)
  show ?case
  proof (cases x)
    case (OpShare s g)
    obtain out r1 where e: "RecvRandBeaconSigShare X r s g = (out, r1)"
      by (cases "RecvRandBeaconSigShare X r s g")
    with Cons.prems OpShare have "run X r1 ops = Some r'"
      by (cases out) simp_all
    then have "Round r' = Round r1 + int (acceptedSigs X r1 ops)" by (rule Cons.IH)
    moreover have "Round r1 = Round r" using Round_RecvShare [of X r s g] e by simp
    ultimately show ?thesis using OpShare e by simp
  next
    case (OpSig s)
    with Cons.prems have "run X (snd (RecvRandBeaconSig X r s)) ops = Some r'" by simp
    then have ih: "Round r' = Round (snd (RecvRandBeaconSig X r s))
                     + int (acceptedSigs X (snd (RecvRandBeaconSig X r s)) ops)"
      by (rule Cons.IH)
    show ?thesis
      using ih OpSig
      by (simp add: RecvSig_cases deriveRand_eq Round_def round_rb_def)
  qed
qed


lemma demoShare_A_returns_nil:
  "fst (RecvRandBeaconSigShare demoExt demoBeacon (demoShare ''A'') 0) = Return (None, None)"
  using demoBeacon_sigHistory_nonempty demoShare_checks
  by (rule RecvShare_below_threshold)
     (simp add: demoBeacon_shares demoBeacon_cfg demoCfg_def fcard_finsert_if)

lemma demo_run: "run demoExt demoBeacon demoOps = Some demoBeacon3"
proof -
  have a: "RecvRandBeaconSigShare demoExt demoBeacon (demoShare ''A'') 0
             = (Return (None, None), demoBeacon1)"
    using demoShare_A_returns_nil by (simp add: demoBeacon1_def prod_eq_iff)
  have b: "RecvRandBeaconSigShare demoExt demoBeacon1 (demoShare ''B'') 0
             = (Return (Some demoSig, None), demoBeacon2)"
    using demoShare_B_returns_sig by (simp add: demoBeacon2_def prod_eq_iff)
  show ?thesis
    by (simp add: demoOps_def a b demoBeacon3_def)
qed

lemma demoBeacon2_Round: "Round demoBeacon2 = 1"
  using demoBeacon_Round by (simp add: demoBeacon2_eq Round_def round_rb_def)

lemma demoBeacon3_Round: "Round demoBeacon3 = 2"
  using demoBeacon2_Round
  by (simp add: demoBeacon3_def RecvSig_cases demoSig_def deriveRand_eq Round_def round_rb_def)

text \<open>
  C4, as the specification states it, fails on a fresh beacon: each committee history has
  one entry and \<open>Round()\<close> is 1, not 0.
\<close>

theorem committee_history_length_counterexample:
  "int (length (nextRBCmteHistory (NewRandomBeacon demoExt ''seed'' demoGroups demoCfg)))
     \<noteq> Round (NewRandomBeacon demoExt ''seed'' demoGroups demoCfg) + 1
   \<and> int (length (nextBPCmteHistory (NewRandomBeacon demoExt ''seed'' demoGroups demoCfg)))
     \<noteq> Round (NewRandomBeacon demoExt ''seed'' demoGroups demoCfg) + 1
   \<and> int (length (nextNtCmteHistory (NewRandomBeacon demoExt ''seed'' demoGroups demoCfg)))
     \<noteq> Round (NewRandomBeacon demoExt ''seed'' demoGroups demoCfg) + 1"
  by (simp add: NewRandomBeacon_fields fresh_Round)

text \<open>
  C4, amended. On the beacon built by \<open>NewRandomBeacon\<close> and after every run from it,
  the three committee histories have length \<open>Round()\<close>, and each is the function
  \<open>cmteHistoryOf\<close> of the seed, the stream's label, the number of groups and the
  signature history: the entry for a round is \<open>Mod(len(groups))\<close> of the seed's stream
  after one \<open>Derive(hash(Sig))\<close> per signature received so far.
\<close>

theorem committee_histories_follow_sigHistory:
  assumes "run X (NewRandomBeacon X seed gs c) ops = Some r"
  shows "int (length (nextRBCmteHistory r)) = Round r
       \<and> int (length (nextBPCmteHistory r)) = Round r
       \<and> int (length (nextNtCmteHistory r)) = Round r
       \<and> nextRBCmteHistory r
           = cmteHistoryOf X seed ''random beacon committee rand seed'' (length gs) (sigHistory r)
       \<and> nextBPCmteHistory r
           = cmteHistoryOf X seed ''block proposer committee rand seed'' (length gs) (sigHistory r)
       \<and> nextNtCmteHistory r
           = cmteHistoryOf X seed ''notarization committee rand seed'' (length gs) (sigHistory r)"
proof -
  have inv: "beaconInv X seed gs r"
    using beaconInv_New assms by (rule beaconInv_run)
  then have ne: "sigHistory r \<noteq> []" by (simp add: beaconInv_def)
  from inv show ?thesis
    by (simp add: beaconInv_def length_cmteHistoryOf [OF ne] Round_def round_rb_def)
qed

theorem committee_histories_follow_sigHistory_witness:
  "run demoExt (NewRandomBeacon demoExt ''seed'' demoGroups demoCfg) demoOps = Some demoBeacon3
   \<and> Round demoBeacon3 = 2
   \<and> length (nextRBCmteHistory demoBeacon3) = 2
   \<and> length (nextBPCmteHistory demoBeacon3) = 2
   \<and> length (nextNtCmteHistory demoBeacon3) = 2
   \<and> nextBPCmteHistory demoBeacon3
       = cmteHistoryOf demoExt ''seed'' ''block proposer committee rand seed''
           (length demoGroups) (sigHistory demoBeacon3)"
proof -
  have r: "run demoExt (NewRandomBeacon demoExt ''seed'' demoGroups demoCfg) demoOps
             = Some demoBeacon3"
    using demo_run by (simp add: demoBeacon_def)
  note t = committee_histories_follow_sigHistory [OF r]
  have l1: "int (length (nextRBCmteHistory demoBeacon3)) = Round demoBeacon3"
    and l2: "int (length (nextBPCmteHistory demoBeacon3)) = Round demoBeacon3"
    and l3: "int (length (nextNtCmteHistory demoBeacon3)) = Round demoBeacon3"
    and e: "nextBPCmteHistory demoBeacon3
       = cmteHistoryOf demoExt ''seed'' ''block proposer committee rand seed''
           (length demoGroups) (sigHistory demoBeacon3)"
    using t by blast+
  have "length (nextRBCmteHistory demoBeacon3) = 2"
    and "length (nextBPCmteHistory demoBeacon3) = 2"
    and "length (nextNtCmteHistory demoBeacon3) = 2"
    using l1 l2 l3 by (simp_all add: demoBeacon3_Round)
  with r e demoBeacon3_Round show ?thesis by blast
qed

text \<open>
  C5. \<open>Round()\<close> is the length of the signature history. It is 1 on a fresh beacon,
  whose history holds the genesis entry with the fixed byte string as its signature.
  \<open>RecvRandBeaconSigShare\<close> never changes it; \<open>RecvRandBeaconSig\<close> adds exactly 1 when it
  accepts the signature and leaves the beacon as it was when it rejects it; so over a run
  \<open>Round()\<close> grows by the number of accepted signatures and never decreases. The other
  methods (\<open>GetShare\<close>, \<open>Round\<close>, \<open>History\<close>, \<open>Rank\<close>, \<open>Committees\<close>) return no beacon.
\<close>

theorem Round_counts_accepted_sigs:
  "Round r = int (length (sigHistory r))
   \<and> Round (NewRandomBeacon X seed gs c) = 1
   \<and> sigHistory (NewRandomBeacon X seed gs c)
       = [\<lparr> SigRound = 0, LastRandVal = HashZero X, Sig = ''DEX random beacon 0th signature'' \<rparr>]
   \<and> Round (snd (RecvRandBeaconSigShare X r s g)) = Round r
   \<and> (fst (RecvRandBeaconSig X r sg) = None \<longleftrightarrow> SigRound sg = Round r)
   \<and> (fst (RecvRandBeaconSig X r sg) = None \<longrightarrow>
        Round (snd (RecvRandBeaconSig X r sg)) = Round r + 1)
   \<and> (fst (RecvRandBeaconSig X r sg) \<noteq> None \<longrightarrow> snd (RecvRandBeaconSig X r sg) = r)
   \<and> (\<forall>r'. run X r ops = Some r' \<longrightarrow>
        Round r' = Round r + int (acceptedSigs X r ops) \<and> Round r \<le> Round r')"
proof -
  have a: "Round r = int (length (sigHistory r))"
    by (simp add: Round_def round_rb_def)
  have b: "Round (NewRandomBeacon X seed gs c) = 1" by (rule fresh_Round)
  have c: "sigHistory (NewRandomBeacon X seed gs c)
       = [\<lparr> SigRound = 0, LastRandVal = HashZero X, Sig = ''DEX random beacon 0th signature'' \<rparr>]"
    by (simp add: NewRandomBeacon_fields)
  have d: "Round (snd (RecvRandBeaconSigShare X r s g)) = Round r"
    by (rule Round_RecvShare)
  have e: "fst (RecvRandBeaconSig X r sg) = None \<longleftrightarrow> SigRound sg = Round r"
    by (simp add: RecvSig_cases)
  have f: "fst (RecvRandBeaconSig X r sg) = None \<longrightarrow>
        Round (snd (RecvRandBeaconSig X r sg)) = Round r + 1"
    by (simp add: RecvSig_cases deriveRand_eq Round_def round_rb_def)
  have g: "fst (RecvRandBeaconSig X r sg) \<noteq> None \<longrightarrow> snd (RecvRandBeaconSig X r sg) = r"
    by (simp add: RecvSig_cases)
  have h: "\<forall>r'. run X r ops = Some r' \<longrightarrow>
        Round r' = Round r + int (acceptedSigs X r ops) \<and> Round r \<le> Round r'"
    using run_Round [of X r ops] by auto
  from a b c d e f g h show ?thesis by blast
qed

theorem Round_counts_accepted_sigs_witness:
  "run demoExt demoBeacon demoOps = Some demoBeacon3
   \<and> acceptedSigs demoExt demoBeacon demoOps = 1
   \<and> Round demoBeacon = 1 \<and> Round demoBeacon3 = 2
   \<and> fst (RecvRandBeaconSig demoExt demoBeacon2 demoSig) = None
   \<and> Round (snd (RecvRandBeaconSig demoExt demoBeacon2 demoSig)) = Round demoBeacon2 + 1
   \<and> fst (RecvRandBeaconSig demoExt demoBeacon3 demoSig) \<noteq> None
   \<and> snd (RecvRandBeaconSig demoExt demoBeacon3 demoSig) = demoBeacon3"
proof -
  note t2 = Round_counts_accepted_sigs [of demoBeacon2 demoExt _ _ _ _ _ demoSig]
  note t3 = Round_counts_accepted_sigs [of demoBeacon3 demoExt _ _ _ _ _ demoSig]
  note t0 = Round_counts_accepted_sigs [of demoBeacon demoExt _ _ _ _ _ _ demoOps]
  have s2: "SigRound demoSig = Round demoBeacon2"
    by (simp add: demoBeacon2_Round demoSig_def)
  have s3: "SigRound demoSig \<noteq> Round demoBeacon3"
    by (simp add: demoBeacon3_Round demoSig_def)
  have a2: "fst (RecvRandBeaconSig demoExt demoBeacon2 demoSig) = None"
    using t2 s2 by blast
  have b2: "Round (snd (RecvRandBeaconSig demoExt demoBeacon2 demoSig)) = Round demoBeacon2 + 1"
    using t2 a2 by blast
  have a3: "fst (RecvRandBeaconSig demoExt demoBeacon3 demoSig) \<noteq> None"
    using t3 s3 by blast
  have b3: "snd (RecvRandBeaconSig demoExt demoBeacon3 demoSig) = demoBeacon3"
    using t3 a3 by blast
  have "Round demoBeacon3 = Round demoBeacon + int (acceptedSigs demoExt demoBeacon demoOps)"
    using t0 demo_run by blast
  then have n: "acceptedSigs demoExt demoBeacon demoOps = 1"
    by (simp add: demoBeacon3_Round demoBeacon_Round)
  from demo_run n demoBeacon_Round demoBeacon3_Round a2 b2 a3 b3 show ?thesis by blast
qed

lemma rankLoop_absent: "a \<notin> set ms \<Longrightarrow> rankLoop a ms i = -1"
  by (induction ms arbitrary: i) simp_all

lemma rankLoop_present:
  "a \<in> set ms \<Longrightarrow>
     i \<le> rankLoop a ms i \<and> rankLoop a ms i < i + int (length ms)
     \<and> ms ! nat (rankLoop a ms i - i) = a"
proof (induction ms arbitrary: i)
  case Nil
  then show ?case by simp
next
  case (Cons m ms)
  show ?case
  proof (cases "a = m")
    case True
    then show ?thesis by simp
  next
    case False
    with Cons.prems have "a \<in> set ms" by simp
    from Cons.IH [OF this, of "i + 1"]
    have ih: "i + 1 \<le> rankLoop a ms (i + 1)" "rankLoop a ms (i + 1) < i + 1 + int (length ms)"
      "ms ! nat (rankLoop a ms (i + 1) - (i + 1)) = a"
      by simp_all
    have "nat (rankLoop a ms (i + 1) - i) = Suc (nat (rankLoop a ms (i + 1) - (i + 1)))"
      using ih(1) by simp
    then show ?thesis using False ih by simp
  qed
qed

lemma rankLoop_neg_iff: "0 \<le> i \<Longrightarrow> rankLoop a ms i < 0 \<longleftrightarrow> a \<notin> set ms"
  using rankLoop_absent [of a ms i] rankLoop_present [of a ms i] by fastforce

lemma rankLoop_inj:
  assumes "a \<in> set ms" "b \<in> set ms" "a \<noteq> b"
  shows "rankLoop a ms i \<noteq> rankLoop b ms i"
  using rankLoop_present [OF assms(1), of i] rankLoop_present [OF assms(2), of i] assms(3)
  by metis

lemma Perm_length:
  assumes "Perm_prefix_of_shuffle X" "0 \<le> k" "k \<le> n"
  shows "length (Perm X r k n) = nat n"
proof -
  have "mset (Perm X r k n) = mset (map int [0..<nat n])"
    using assms by (simp add: Perm_prefix_of_shuffle_def)
  then have "size (mset (Perm X r k n)) = size (mset (map int [0..<nat n]))" by simp
  then show ?thesis by simp
qed

lemma Perm_nth_prefix:
  assumes "Perm_prefix_of_shuffle X" "0 \<le> i" "i < k" "k \<le> n"
  shows "Perm X r k n ! nat i = Perm X r n n ! nat i"
proof -
  have k0: "0 \<le> k" using assms by simp
  have t: "take (nat k) (Perm X r k n) = take (nat k) (Perm X r n n)"
    using assms(1) k0 assms(4) unfolding Perm_prefix_of_shuffle_def by blast
  have "nat i < nat k" using assms by simp
  then have "Perm X r k n ! nat i = take (nat k) (Perm X r k n) ! nat i" by simp
  also have "\<dots> = take (nat k) (Perm X r n n) ! nat i" by (simp only: t)
  also have "\<dots> = Perm X r n n ! nat i" using \<open>nat i < nat k\<close> by simp
  finally show ?thesis .
qed

lemma Perm_full_distinct:
  assumes "Perm_prefix_of_shuffle X" "0 \<le> n"
  shows "distinct (Perm X r n n)" and "set (Perm X r n n) = {0..<n}"
proof -
  have m: "mset (Perm X r n n) = mset (map int [0..<nat n])"
    using assms by (simp add: Perm_prefix_of_shuffle_def)
  have "distinct (map int [0..<nat n])" by (simp add: distinct_map)
  then show "distinct (Perm X r n n)" using m by (metis mset_eq_imp_distinct_iff)
  have "set (Perm X r n n) = set (map int [0..<nat n])" using m by (metis mset_eq_setD)
  also have "\<dots> = {0..<n}"
  proof (rule set_eqI)
    fix x :: int
    show "x \<in> set (map int [0..<nat n]) \<longleftrightarrow> x \<in> {0..<n}"
    proof
      assume "x \<in> set (map int [0..<nat n])"
      then show "x \<in> {0..<n}" using assms(2) by auto
    next
      assume "x \<in> {0..<n}"
      then have "x = int (nat x)" "nat x < nat n" by auto
      then show "x \<in> set (map int [0..<nat n])"
        by (metis atLeast0LessThan image_eqI lessThan_iff set_map set_upt)
    qed
  qed
  finally show "set (Perm X r n n) = {0..<n}" .
qed

text \<open>What \<open>Rank\<close> returns, given the committee that the last entry of the history selects.\<close>

lemma Rank_eq:
  assumes P: "Perm_prefix_of_shuffle X"
    and h: "nextBPCmteHistory r \<noteq> []"
    and b: "0 \<le> last (nextBPCmteHistory r)" "last (nextBPCmteHistory r) < int (length (groups r))"
  shows "Rank X r a =
     (if a \<in> set (Members (groups r ! nat (last (nextBPCmteHistory r))))
      then Return (Perm X (bpRand r)
                     (int (length (Members (groups r ! nat (last (nextBPCmteHistory r))))))
                     (int (length (Members (groups r ! nat (last (nextBPCmteHistory r))))))
                   ! nat (rankLoop a (Members (groups r ! nat (last (nextBPCmteHistory r)))) 0),
                   None)
      else Return (0, Some AddrNotInCommittee))"
proof -
  let ?ms = "Members (groups r ! nat (last (nextBPCmteHistory r)))"
  let ?n = "int (length ?ms)"
  let ?idx = "rankLoop a ?ms 0"
  have i1: "index (nextBPCmteHistory r) (int (length (nextBPCmteHistory r)) - 1)
              = Return (last (nextBPCmteHistory r))"
    using h by (rule index_last)
  have i2: "index (groups r) (last (nextBPCmteHistory r))
              = Return (groups r ! nat (last (nextBPCmteHistory r)))"
    using b by (simp add: index_def)
  show ?thesis
  proof (cases "a \<in> set ?ms")
    case False
    then have "?idx < 0" by (simp add: rankLoop_absent)
    then show ?thesis using False by (simp add: Rank_def i1 i2 Let_def)
  next
    case True
    from rankLoop_present [OF True, of 0]
    have r: "0 \<le> ?idx" "?idx < ?n" by simp_all
    have len: "length (Perm X (bpRand r) (?idx + 1) ?n) = nat ?n"
      using P r by (intro Perm_length) simp_all
    have i3: "index (Perm X (bpRand r) (?idx + 1) ?n) ?idx
                = Return (Perm X (bpRand r) (?idx + 1) ?n ! nat ?idx)"
      using r len by (simp add: index_def)
    have nth: "Perm X (bpRand r) (?idx + 1) ?n ! nat ?idx = Perm X (bpRand r) ?n ?n ! nat ?idx"
      using P r by (intro Perm_nth_prefix) simp_all
    show ?thesis
      using True r by (simp add: Rank_def i1 i2 Let_def i3 nth)
  qed
qed


lemma fyLoop_length: "length (fyLoop st i k xs) = length xs"
  by (induction k arbitrary: st i xs) (simp_all add: Let_def)

lemma fy_swap_mset:
  "mset (xs[i := xs ! (i + nat (demoMod st (int (length xs - i)))),
            i + nat (demoMod st (int (length xs - i))) := xs ! i]) = mset xs"
proof (cases "i < length xs")
  case True
  then have "0 < int (length xs - i)" by simp
  then have "0 \<le> demoMod st (int (length xs - i))"
    and "demoMod st (int (length xs - i)) < int (length xs - i)"
    by (simp_all only: demoMod_def pos_mod_sign pos_mod_bound)
  then have "i + nat (demoMod st (int (length xs - i))) < length xs" using True by linarith
  then show ?thesis using True by (rule mset_swap)
next
  case False
  then have a: "length xs \<le> i" by simp
  then have b: "length xs \<le> i + nat (demoMod st (int (length xs - i)))" by linarith
  have "xs[i := xs ! (i + nat (demoMod st (int (length xs - i))))] = xs"
    using a by (rule list_update_beyond)
  moreover have "xs[i + nat (demoMod st (int (length xs - i))) := xs ! i] = xs"
    using b by (rule list_update_beyond)
  ultimately show ?thesis by (simp only:)
qed

lemma fyLoop_mset: "mset (fyLoop st i k xs) = mset xs"
proof (induction k arbitrary: st i xs)
  case 0
  then show ?case by simp
next
  case (Suc k)
  have "mset (fyLoop st i (Suc k) xs)
      = mset (xs[i := xs ! (i + nat (demoMod st (int (length xs - i)))),
                 i + nat (demoMod st (int (length xs - i))) := xs ! i])"
    by (simp only: fyLoop.simps Let_def Suc.IH)
  then show ?case by (simp only: fy_swap_mset)
qed

lemma fyLoop_take: "take i (fyLoop st i k xs) = take i xs"
proof (induction k arbitrary: st i xs)
  case 0
  then show ?case by simp
next
  case (Suc k)
  let ?j = "i + nat (demoMod st (int (length xs - i)))"
  let ?xs = "xs[i := xs ! ?j, ?j := xs ! i]"
  have "take i (fyLoop st i (Suc k) xs)
          = take i (take (Suc i) (fyLoop (demoNext st) (Suc i) k ?xs))"
    by (simp add: Let_def min_def)
  also have "\<dots> = take i (take (Suc i) ?xs)" by (simp only: Suc.IH)
  also have "\<dots> = take i xs" by (simp add: min_def)
  finally show ?case .
qed

lemma fyLoop_add:
  "fyLoop st i (a + b) xs = fyLoop ((demoNext ^^ a) st) (i + a) b (fyLoop st i a xs)"
proof (induction a arbitrary: st i xs)
  case 0
  then show ?case by simp
next
  case (Suc a)
  show ?case
    by (simp add: Let_def Suc.IH funpow_swap1)
qed

lemma demoPerm_prefix: "Perm_prefix_of_shuffle demoExt"
  unfolding Perm_prefix_of_shuffle_def
proof (intro allI impI conjI)
  fix r :: Rand and k n :: int
  assume kn: "0 \<le> k \<and> k \<le> n"
  show "mset (Perm demoExt r k n) = mset (map int [0..<nat n])"
    by (simp only: demoExt_simps demoPerm_def fyLoop_mset)
  have "nat k \<le> nat n" using kn by (simp add: nat_mono)
  then have "nat n = nat k + (nat n - nat k)" by arith
  then have "fyLoop r 0 (nat n) (map int [0..<nat n])
      = fyLoop ((demoNext ^^ nat k) r) (0 + nat k) (nat n - nat k)
          (fyLoop r 0 (nat k) (map int [0..<nat n]))"
    by (metis fyLoop_add)
  then have "take (nat k) (fyLoop r 0 (nat n) (map int [0..<nat n]))
      = take (nat k) (fyLoop r 0 (nat k) (map int [0..<nat n]))"
    by (simp add: fyLoop_take)
  then show "take (nat k) (Perm demoExt r k n) = take (nat k) (Perm demoExt r n n)"
    by (simp add: demoExt_simps demoPerm_def)
qed

lemma cmteHistoryOf_in_range:
  assumes "Mod_in_range X" "0 < n" "x \<in> set (cmteHistoryOf X seed label n sigs)"
  shows "0 \<le> x \<and> x < int n"
  using assms by (auto simp add: cmteHistoryOf_def Mod_in_range_def)

lemma cmteHistoryOf_nonempty: "cmteHistoryOf X seed label n sigs \<noteq> []"
  by (simp add: cmteHistoryOf_def streamHistory_nonempty)

lemma beaconInv_bp_in_range:
  assumes "beaconInv X seed gs r" "Mod_in_range X" "gs \<noteq> []"
  shows "nextBPCmteHistory r \<noteq> []"
    and "0 \<le> last (nextBPCmteHistory r)"
    and "last (nextBPCmteHistory r) < int (length (groups r))"
proof -
  have e: "nextBPCmteHistory r
       = cmteHistoryOf X seed ''block proposer committee rand seed'' (length gs) (sigHistory r)"
    and g: "groups r = gs"
    using assms(1) by (simp_all add: beaconInv_def)
  show ne: "nextBPCmteHistory r \<noteq> []" by (simp add: e cmteHistoryOf_nonempty)
  then have "last (nextBPCmteHistory r)
      \<in> set (cmteHistoryOf X seed ''block proposer committee rand seed'' (length gs) (sigHistory r))"
    using e by (metis last_in_set)
  moreover have "0 < length gs" using assms(3) by simp
  ultimately have "0 \<le> last (nextBPCmteHistory r) \<and> last (nextBPCmteHistory r) < int (length gs)"
    using assms(2) cmteHistoryOf_in_range by blast
  then show "0 \<le> last (nextBPCmteHistory r)"
    and "last (nextBPCmteHistory r) < int (length (groups r))"
    by (simp_all add: g)
qed

lemma Rank_depends:
  assumes "nextBPCmteHistory r' = nextBPCmteHistory r" and "groups r' = groups r"
    and "bpRand r' = bpRand r"
  shows "Rank X r' a = Rank X r a"
  unfolding Rank_def assms by (rule refl)

lemma beaconInv_Rank_determined:
  assumes "beaconInv X seed gs r" "beaconInv X seed gs r'" "sigHistory r' = sigHistory r"
  shows "Rank X r' a = Rank X r a"
  using assms by (intro Rank_depends) (simp_all add: beaconInv_def)

text \<open>
  C6. On every beacon a run leads to from \<open>NewRandomBeacon\<close> with a non-empty group
  list, under the contracts of \<open>Mod\<close> and \<open>Perm\<close>: \<open>Rank(addr)\<close> returns an error exactly
  when \<open>addr\<close> is not a member of the current block-proposal committee; for a member it
  returns the entry of the bp stream's shuffle of the committee's positions at the first
  position that holds the member, a rank in \<open>[0, n)\<close> for a committee of \<open>n\<close>; two
  different members get different ranks; and the result is the same on every beacon built
  from the same seed and group list that has received the same signatures.
\<close>

theorem Rank_injective_on_committee:
  assumes "run X (NewRandomBeacon X seed gs c) ops = Some r"
    and "gs \<noteq> []" and "Mod_in_range X" and "Perm_prefix_of_shuffle X"
  shows "((\<exists>k e. Rank X r a = Return (k, Some e)) \<longleftrightarrow> a \<notin> set (bpCommittee r))
       \<and> (a \<notin> set (bpCommittee r) \<longrightarrow> Rank X r a = Return (0, Some AddrNotInCommittee))
       \<and> (a \<in> set (bpCommittee r) \<longrightarrow>
            Rank X r a = Return (Perm X (bpRand r) (int (length (bpCommittee r)))
                                   (int (length (bpCommittee r)))
                                 ! nat (rankLoop a (bpCommittee r) 0), None)
            \<and> (\<exists>k. Rank X r a = Return (k, None) \<and> 0 \<le> k \<and> k < int (length (bpCommittee r))))
       \<and> (a \<in> set (bpCommittee r) \<and> b \<in> set (bpCommittee r) \<and> a \<noteq> b \<longrightarrow>
            Rank X r a \<noteq> Rank X r b)
       \<and> (\<forall>c' ops' r'. run X (NewRandomBeacon X seed gs c') ops' = Some r'
              \<and> sigHistory r' = sigHistory r \<longrightarrow> Rank X r' a = Rank X r a)"
proof -
  let ?ms = "bpCommittee r"
  let ?n = "int (length ?ms)"
  let ?full = "Perm X (bpRand r) ?n ?n"
  have inv: "beaconInv X seed gs r"
    using beaconInv_New assms(1) by (rule beaconInv_run)
  note bp = beaconInv_bp_in_range [OF inv assms(3) assms(2)]
  have R: "\<And>x. Rank X r x =
     (if x \<in> set ?ms then Return (?full ! nat (rankLoop x ?ms 0), None)
      else Return (0, Some AddrNotInCommittee))"
    unfolding bpCommittee_def using assms(4) bp by (rule Rank_eq)
  have dist: "distinct ?full" and setf: "set ?full = {0..<?n}"
    using Perm_full_distinct [OF assms(4), of ?n "bpRand r"] by simp_all
  have len: "length ?full = nat ?n"
    using Perm_length [OF assms(4), of ?n ?n "bpRand r"] by simp
  have p1: "(\<exists>k e. Rank X r a = Return (k, Some e)) \<longleftrightarrow> a \<notin> set ?ms"
    by (simp add: R)
  have p2: "a \<notin> set ?ms \<longrightarrow> Rank X r a = Return (0, Some AddrNotInCommittee)"
    by (simp add: R)
  have p3: "a \<in> set ?ms \<longrightarrow>
            Rank X r a = Return (?full ! nat (rankLoop a ?ms 0), None)
            \<and> (\<exists>k. Rank X r a = Return (k, None) \<and> 0 \<le> k \<and> k < ?n)"
  proof
    assume m: "a \<in> set ?ms"
    from rankLoop_present [OF m, of 0]
    have "nat (rankLoop a ?ms 0) < length ?ms" by linarith
    then have "nat (rankLoop a ?ms 0) < length ?full" using len by simp
    then have "?full ! nat (rankLoop a ?ms 0) \<in> set ?full" by (rule nth_mem)
    then have "0 \<le> ?full ! nat (rankLoop a ?ms 0) \<and> ?full ! nat (rankLoop a ?ms 0) < ?n"
      using setf by simp
    then show "Rank X r a = Return (?full ! nat (rankLoop a ?ms 0), None)
            \<and> (\<exists>k. Rank X r a = Return (k, None) \<and> 0 \<le> k \<and> k < ?n)"
      using m by (simp add: R)
  qed
  have p4: "a \<in> set ?ms \<and> b \<in> set ?ms \<and> a \<noteq> b \<longrightarrow> Rank X r a \<noteq> Rank X r b"
  proof
    assume h: "a \<in> set ?ms \<and> b \<in> set ?ms \<and> a \<noteq> b"
    then have ma: "a \<in> set ?ms" and mb: "b \<in> set ?ms" and ne: "a \<noteq> b" by simp_all
    from rankLoop_present [OF ma, of 0] have ia0: "0 \<le> rankLoop a ?ms 0"
      "nat (rankLoop a ?ms 0) < length ?ms" by linarith+
    from rankLoop_present [OF mb, of 0] have ib0: "0 \<le> rankLoop b ?ms 0"
      "nat (rankLoop b ?ms 0) < length ?ms" by linarith+
    have ia: "0 \<le> rankLoop a ?ms 0" "nat (rankLoop a ?ms 0) < length ?full"
      using ia0 len by simp_all
    have ib: "0 \<le> rankLoop b ?ms 0" "nat (rankLoop b ?ms 0) < length ?full"
      using ib0 len by simp_all
    have "rankLoop a ?ms 0 \<noteq> rankLoop b ?ms 0" using ma mb ne by (rule rankLoop_inj)
    then have "nat (rankLoop a ?ms 0) \<noteq> nat (rankLoop b ?ms 0)" using ia(1) ib(1) by simp
    then have "?full ! nat (rankLoop a ?ms 0) \<noteq> ?full ! nat (rankLoop b ?ms 0)"
      using dist ia(2) ib(2) by (simp add: nth_eq_iff_index_eq)
    then show "Rank X r a \<noteq> Rank X r b" using ma mb by (simp add: R)
  qed
  have p5: "\<forall>c' ops' r'. run X (NewRandomBeacon X seed gs c') ops' = Some r'
              \<and> sigHistory r' = sigHistory r \<longrightarrow> Rank X r' a = Rank X r a"
  proof (intro allI impI)
    fix c' ops' r'
    assume h: "run X (NewRandomBeacon X seed gs c') ops' = Some r' \<and> sigHistory r' = sigHistory r"
    then have "beaconInv X seed gs r'"
      using beaconInv_New beaconInv_run by blast
    with inv h show "Rank X r' a = Rank X r a"
      by (intro beaconInv_Rank_determined) simp_all
  qed
  from p1 p2 p3 p4 p5 show ?thesis by blast
qed

lemma fyLoop_numeral:
  "fyLoop st i (numeral k) xs =
     fyLoop (demoNext st) (Suc i) (pred_numeral k)
       (xs[i := xs ! (i + nat (demoMod st (int (length xs - i)))),
           i + nat (demoMod st (int (length xs - i))) := xs ! i])"
  by (simp add: numeral_eq_Suc Let_def)

lemma fyLoop_Suc0:
  "fyLoop st i (Suc 0) xs =
       (xs[i := xs ! (i + nat (demoMod st (int (length xs - i)))),
           i + nat (demoMod st (int (length xs - i))) := xs ! i])"
  by (simp add: Let_def)

lemma upt_0_3: "[0..<3] = [0, Suc 0, Suc (Suc 0)]"
proof -
  have "[0..<3] = [0..<Suc (Suc (Suc 0))]" by (simp only: numeral_3_eq_3)
  then show ?thesis by simp
qed

lemma demoBeacon_bp: "nextBPCmteHistory demoBeacon = [0]"
  by (simp add: demoBeacon_def NewRandomBeacon_fields demoExt_simps demoDerive_def demoHash_def
       bytesToNat_def demoMod_def demoGroups_def)

lemma demoBeacon_bpCommittee: "bpCommittee demoBeacon = [''A'', ''B'', ''C'']"
  by (simp add: bpCommittee_def demoBeacon_bp demoBeacon_groups demoGroups_def)

lemma demoBeacon_shuffle: "Perm demoExt (bpRand demoBeacon) 3 3 = [1, 0, 2]"
  by (simp add: demoBeacon_def NewRandomBeacon_fields demoExt_simps demoDerive_def demoHash_def
       bytesToNat_def demoMod_def demoGroups_def demoPerm_def demoNext_def fyLoop_numeral
       upt_0_3)

theorem Rank_injective_on_committee_witness:
  "run demoExt (NewRandomBeacon demoExt ''seed'' demoGroups demoCfg) [] = Some demoBeacon
   \<and> demoGroups \<noteq> [] \<and> Mod_in_range demoExt \<and> Perm_prefix_of_shuffle demoExt
   \<and> bpCommittee demoBeacon = [''A'', ''B'', ''C'']
   \<and> Rank demoExt demoBeacon ''A'' = Return (1, None)
   \<and> Rank demoExt demoBeacon ''B'' = Return (0, None)
   \<and> Rank demoExt demoBeacon ''C'' = Return (2, None)
   \<and> Rank demoExt demoBeacon ''D'' = Return (0, Some AddrNotInCommittee)"
proof -
  have r: "run demoExt (NewRandomBeacon demoExt ''seed'' demoGroups demoCfg) [] = Some demoBeacon"
    by (simp add: demoBeacon_def)
  have g: "demoGroups \<noteq> []" by (simp add: demoGroups_def)
  note t = Rank_injective_on_committee [OF r g demoMod_in_range demoPerm_prefix]
  have a: "Rank demoExt demoBeacon ''A'' = Return (1, None)"
    using t [of "''A''"] by (simp add: demoBeacon_bpCommittee demoBeacon_shuffle)
  have b: "Rank demoExt demoBeacon ''B'' = Return (0, None)"
    using t [of "''B''"] by (simp add: demoBeacon_bpCommittee demoBeacon_shuffle)
  have c: "Rank demoExt demoBeacon ''C'' = Return (2, None)"
    using t [of "''C''"] by (simp add: demoBeacon_bpCommittee demoBeacon_shuffle)
  have d: "Rank demoExt demoBeacon ''D'' = Return (0, Some AddrNotInCommittee)"
    using t [of "''D''"] by (simp add: demoBeacon_bpCommittee)
  from r g demoMod_in_range demoPerm_prefix demoBeacon_bpCommittee a b c d
  show ?thesis by blast
qed

lemma last_deriveRandStates: "last (deriveRandStates X r h) = deriveRand X r h"
  by (simp add: deriveRandStates_def deriveRand_def Let_def)

lemma RecvRandBeaconSigStates_last:
  "SigRound s = Round r \<Longrightarrow>
     last (RecvRandBeaconSigStates X r s) = snd (RecvRandBeaconSig X r s)"
  by (simp add: RecvRandBeaconSigStates_def RecvRandBeaconSig_def Round_def Let_def
        last_deriveRandStates)

lemma deriveRandStates_in_critical_section:
  "SigRound s = Round r \<Longrightarrow>
     set (deriveRandStates X r (hash X (Sig s))) \<subseteq> set (RecvRandBeaconSigStates X r s)"
  by (auto simp add: RecvRandBeaconSigStates_def Round_def Let_def)

lemma demoBeacon2_fields:
  "nextBPCmteHistory demoBeacon2 = [0]" "groups demoBeacon2 = demoGroups"
  "bpRand demoBeacon2 = bpRand demoBeacon" "curRoundShares demoBeacon2 \<noteq> fmempty"
  by (simp_all add: demoBeacon2_eq demoBeacon_bp demoBeacon_groups)

lemma demoSigOther_round: "SigRound demoSigOther = Round demoBeacon2"
  by (simp add: demoSigOther_def demoBeacon2_Round)

lemma demoMid_fields:
  "nextBPCmteHistory demoMid = [0]" "groups demoMid = demoGroups"
  "bpRand demoMid = demoDerive (bpRand demoBeacon) (demoHash ''other signature'')"
  by (simp_all add: demoMid_def deriveRandStates_def Let_def demoBeacon2_fields demoExt_simps
        demoSigOther_def)

lemma demoMid_in_critical_section:
  "demoMid \<in> set (RecvRandBeaconSigStates demoExt demoBeacon2 demoSigOther)"
proof -
  have "demoMid \<in> set (deriveRandStates demoExt demoBeacon2 (hash demoExt (Sig demoSigOther)))"
    unfolding demoMid_def by (rule nth_mem) (simp add: deriveRandStates_def Let_def)
  then show ?thesis
    using deriveRandStates_in_critical_section [OF demoSigOther_round, of demoExt] by blast
qed

lemma demoOther_stream:
  "demoMod (demoDerive (bpRand demoBeacon) (demoHash ''other signature'')) 2 = 1"
  "demoPerm (demoDerive (bpRand demoBeacon) (demoHash ''other signature'')) 3 3 = [2, 0, 1]"
  by (simp_all add: demoBeacon_def NewRandomBeacon_fields demoExt_simps demoDerive_def
        demoHash_def bytesToNat_def demoMod_def demoPerm_def demoNext_def fyLoop_numeral upt_0_3)

lemma demoAfterOther_fields:
  "nextBPCmteHistory (snd (RecvRandBeaconSig demoExt demoBeacon2 demoSigOther)) = [0, 1]"
  "groups (snd (RecvRandBeaconSig demoExt demoBeacon2 demoSigOther)) = demoGroups"
  "bpRand (snd (RecvRandBeaconSig demoExt demoBeacon2 demoSigOther))
     = demoDerive (bpRand demoBeacon) (demoHash ''other signature'')"
  "curRoundShares (snd (RecvRandBeaconSig demoExt demoBeacon2 demoSigOther)) = fmempty"
  using demoSigOther_round
  by (simp_all add: RecvSig_cases deriveRand_eq demoBeacon2_fields demoExt_simps
        demoOther_stream) (simp_all add: demoSigOther_def demoGroups_def demoOther_stream)

lemma demoRank_before: "Rank demoExt demoBeacon2 ''A'' = Return (1, None)"
proof -
  have "Rank demoExt demoBeacon2 ''A'' = Rank demoExt demoBeacon ''A''"
    by (rule Rank_depends) (simp_all add: demoBeacon2_fields demoBeacon_bp demoBeacon_groups)
  also have "\<dots> = Return (1, None)"
    using Rank_eq [OF demoPerm_prefix, of demoBeacon "''A''"]
    by (simp add: demoBeacon_bp demoBeacon_groups demoGroups_def demoBeacon_shuffle)
  finally show ?thesis .
qed

lemma demoRank_mid: "Rank demoExt demoMid ''A'' = Return (2, None)"
  using Rank_eq [OF demoPerm_prefix, of demoMid "''A''"]
  by (simp add: demoMid_fields demoGroups_def demoExt_simps demoOther_stream)

lemma demoRank_after:
  "Rank demoExt (snd (RecvRandBeaconSig demoExt demoBeacon2 demoSigOther)) ''A''
     = Return (0, Some AddrNotInCommittee)"
  using Rank_eq [OF demoPerm_prefix,
      of "snd (RecvRandBeaconSig demoExt demoBeacon2 demoSigOther)" "''A''"]
  by (simp add: demoAfterOther_fields demoGroups_def)

text \<open>
  C1. An accepted \<open>RecvRandBeaconSig\<close> is not one atomic step for every observer.
  \<open>Rank\<close> reads \<open>nextBPCmteHistory\<close>, \<open>groups\<close> and \<open>bpRand\<close> without \<open>r.mu\<close>, so a
  call can run on the beacon between lines 152 and 153 of \<open>deriveRand\<close>, where the bp
  stream is already the new one and the committee history still ends with the old
  committee. On the beacon below it returns rank 2 for A, which A has neither before the
  call (rank 1) nor after it (A is not in the new committee).
\<close>

theorem Rank_sees_RecvRandBeaconSig_half_done:
  "SigRound demoSigOther = Round demoBeacon2
   \<and> demoMid \<in> set (RecvRandBeaconSigStates demoExt demoBeacon2 demoSigOther)
   \<and> last (RecvRandBeaconSigStates demoExt demoBeacon2 demoSigOther)
       = snd (RecvRandBeaconSig demoExt demoBeacon2 demoSigOther)
   \<and> bpRand demoMid = bpRand (snd (RecvRandBeaconSig demoExt demoBeacon2 demoSigOther))
   \<and> nextBPCmteHistory demoMid = nextBPCmteHistory demoBeacon2
   \<and> Rank demoExt demoBeacon2 ''A'' = Return (1, None)
   \<and> Rank demoExt demoMid ''A'' = Return (2, None)
   \<and> Rank demoExt (snd (RecvRandBeaconSig demoExt demoBeacon2 demoSigOther)) ''A''
       = Return (0, Some AddrNotInCommittee)"
proof -
  have l: "last (RecvRandBeaconSigStates demoExt demoBeacon2 demoSigOther)
       = snd (RecvRandBeaconSig demoExt demoBeacon2 demoSigOther)"
    using demoSigOther_round by (rule RecvRandBeaconSigStates_last)
  have s: "bpRand demoMid = bpRand (snd (RecvRandBeaconSig demoExt demoBeacon2 demoSigOther))"
    by (simp add: demoMid_fields demoAfterOther_fields)
  have h: "nextBPCmteHistory demoMid = nextBPCmteHistory demoBeacon2"
    by (simp add: demoMid_fields demoBeacon2_fields)
  from demoSigOther_round demoMid_in_critical_section l s h
    demoRank_before demoRank_mid demoRank_after
  show ?thesis by blast
qed

text \<open>
  The same call taken as one step: it empties a share set that holds two shares and moves
  the beacon from round 1 to round 2.
\<close>

lemma RecvRandBeaconSig_effect_demo:
  "curRoundShares demoBeacon2 \<noteq> fmempty
   \<and> fst (RecvRandBeaconSig demoExt demoBeacon2 demoSigOther) = None
   \<and> curRoundShares (snd (RecvRandBeaconSig demoExt demoBeacon2 demoSigOther)) = fmempty
   \<and> Round (snd (RecvRandBeaconSig demoExt demoBeacon2 demoSigOther)) = 2
   \<and> sigHistory (snd (RecvRandBeaconSig demoExt demoBeacon2 demoSigOther))
       = sigHistory demoBeacon2 @ [demoSigOther]"
proof -
  have g: "groups demoBeacon2 \<noteq> []"
    by (simp add: demoBeacon2_fields demoGroups_def)
  from RecvRandBeaconSig_effect [OF demoSigOther_round demoMod_in_range g]
  obtain rb nt bp where
    e: "RecvRandBeaconSig demoExt demoBeacon2 demoSigOther =
       (None, demoBeacon2\<lparr> rbRand := Derive demoExt (rbRand demoBeacon2) (hash demoExt (Sig demoSigOther)),
                  ntRand := Derive demoExt (ntRand demoBeacon2) (hash demoExt (Sig demoSigOther)),
                  bpRand := Derive demoExt (bpRand demoBeacon2) (hash demoExt (Sig demoSigOther)),
                  nextRBCmteHistory := nextRBCmteHistory demoBeacon2 @ [rb],
                  nextNtCmteHistory := nextNtCmteHistory demoBeacon2 @ [nt],
                  nextBPCmteHistory := nextBPCmteHistory demoBeacon2 @ [bp],
                  curRoundShares := fmempty,
                  sigHistory := sigHistory demoBeacon2 @ [demoSigOther] \<rparr>)"
    and r: "Round (snd (RecvRandBeaconSig demoExt demoBeacon2 demoSigOther)) = Round demoBeacon2 + 1"
    by blast
  from e r demoBeacon2_fields(4) show ?thesis
    by (simp add: demoBeacon2_Round)
qed

section \<open>Properties of the networking component\<close>


lemma inventoryLoop_outcome:
  "snd (inventoryLoop n p rnd xs)
     = (if \<exists>x \<in> set xs. isTxn x then Panic NotImplemented else Return ())"
  by (induction xs)
     (auto simp add: isTxn_def emit_def split: ItemType.splits option.splits)

lemma findOrConnect_keeps:
  "chain (snd (findOrConnect n a)) = chain n" "addr (snd (findOrConnect n a)) = addr n"
  by (simp_all add: findOrConnect_def split: option.splits sum.splits)




lemma takeWhile_all: "\<forall>x \<in> set xs. P x \<Longrightarrow> takeWhile P xs = xs"
  by (induction xs) auto




lemma demoNet_connect: "findOrConnect demoNet ''peer'' = (Inr ''peer'', demoNet)"
  by (simp add: findOrConnect_def demoNet_def)










text \<open>
  What \<open>serveData\<close> does send: every call it makes sends an item the node holds, a
  \<open>RandBeaconItem\<close> of a round at or beyond \<open>len(History())\<close> is skipped, and one of a
  round in \<open>[0, len(History()))\<close> is answered with \<open>History()[ItemRound]\<close>.
\<close>

lemma emit_set: "set (fst (emit c rest)) = insert c (set (fst rest))"
  by (simp add: emit_def)

lemma serveLoop_step_holds:
  assumes "\<forall>c \<in> set (fst (serveLoop n p xs)). holds n c"
  shows "\<forall>c \<in> set (fst (serveLoop n p (x # xs))). holds n c"
proof (cases "T x")
  case TxnItem then show ?thesis by simp
next
  case SysTxnItem then show ?thesis by simp
next
  case BlockItem
  then show ?thesis using assms
    by (cases "Block (chain n) (Hash x)") (simp_all add: emit_set holds_def ranI)
next
  case BlockProposalItem
  then show ?thesis using assms
    by (cases "BlockProposal (chain n) (Hash x)") (simp_all add: emit_set holds_def ranI)
next
  case NtShareItem
  then show ?thesis using assms
    by (cases "NtShare (chain n) (Hash x)") (simp_all add: emit_set holds_def ranI)
next
  case RandBeaconShareItem
  show ?thesis
  proof (cases "GetShare (RandomBeacon (chain n)) (Hash x)")
    case None
    then show ?thesis using assms RandBeaconShareItem by simp
  next
    case (Some sh)
    then have "holds n (CallRandBeaconSigShare p sh)"
      unfolding holds_def by (simp, blast)
    then show ?thesis using assms RandBeaconShareItem Some by (simp add: emit_set)
  qed
next
  case RandBeaconItem
  show ?thesis
  proof (cases "ItemRound x \<ge> int (length (History (RandomBeacon (chain n))))")
    case True
    then show ?thesis using assms RandBeaconItem by (simp add: Let_def)
  next
    case False
    show ?thesis
    proof (cases "0 \<le> ItemRound x")
      case neg: False
      then show ?thesis using RandBeaconItem False by (simp add: Let_def index_def)
    next
      case True
      then have "nat (ItemRound x) < length (History (RandomBeacon (chain n)))"
        using False by linarith
      then have "holds n (CallRandBeaconSig p (History (RandomBeacon (chain n)) ! nat (ItemRound x)))"
        by (simp add: holds_def)
      then show ?thesis using assms RandBeaconItem False True
        by (simp add: Let_def index_def emit_set)
    qed
  qed
qed

lemma serveLoop_sends_held: "\<forall>c \<in> set (fst (serveLoop n p xs)). holds n c"
proof (induction xs)
  case Nil
  then show ?case by simp
next
  case (Cons x xs)
  then show ?case by (rule serveLoop_step_holds)
qed

lemma serveData_sends_held: "\<forall>c \<in> set (fst (serveData n requester ids)). holds n c"
proof (cases "findOrConnect n requester")
  case (Pair res n')
  then have k: "chain n' = chain n"
    using findOrConnect_keeps(1) [of n requester] by simp
  have h: "holds n' = holds n"
    unfolding holds_def k by (rule refl)
  show ?thesis
  proof (cases res)
    case (Inl e)
    then show ?thesis by (simp add: serveData_def Pair)
  next
    case (Inr p)
    then show ?thesis
      using serveLoop_sends_held [of n' p ids]
      by (simp add: serveData_def Pair Let_def h)
  qed
qed

lemma serveLoop_in_range:
  "T x = RandBeaconItem \<Longrightarrow> 0 \<le> ItemRound x \<Longrightarrow>
   ItemRound x < int (length (History (RandomBeacon (chain n)))) \<Longrightarrow>
     serveLoop n p [x] =
       ([CallRandBeaconSig p (History (RandomBeacon (chain n)) ! nat (ItemRound x))], Return ())"
  by (simp add: index_def Let_def emit_def)

lemma serveLoop_too_high:
  "T x = RandBeaconItem \<Longrightarrow> int (length (History (RandomBeacon (chain n)))) \<le> ItemRound x \<Longrightarrow>
     serveLoop n p (x # xs) = serveLoop n p xs"
  by (simp add: Let_def)

lemma serveLoop_negative_round:
  "T x = RandBeaconItem \<Longrightarrow> ItemRound x < 0 \<Longrightarrow>
     serveLoop n p (x # xs) = ([], Panic (IndexOutOfRange (ItemRound x)))"
  by (simp add: index_def Let_def)

text \<open>
  C8. A peer can request a \<open>RandBeaconItem\<close> with a negative \<open>ItemRound\<close>. The check
  before the indexing compares the round only with \<open>len(history)\<close>, so the request passes
  it and \<open>history[id.ItemRound]\<close> panics with an index out of range: nothing is sent, for
  this item or for the rest of the list.
\<close>

theorem serveData_negative_round_panics:
  "serveData demoNet ''peer'' [demoItem RandBeaconItem (-1) [], demoItem BlockItem 1 ''block hash'']
     = ([], Panic (IndexOutOfRange (-1)), demoNet)"
  by (simp add: serveData_def demoNet_connect demoItem_def index_def Let_def)

end
